theory Spec2Isabelle
  imports Main "HOL-Library.Word"
begin

section \<open>Values of the Go runtime and standard library\<close>

text \<open>
  The program is \<^verbatim>\<open>pkg/python/py_compile.go\<close>: \<^verbatim>\<open>ExternalCompiler\<close> resolves an external
  program once and returns a closure, the \<^verbatim>\<open>Compiler\<close>, that stages one source file in a
  temporary directory, runs the program there and collects the \<^verbatim>\<open>.pyc\<close> files it left.

  Go strings and byte slices are sequences of bytes, here \<open>string\<close>. An \<^verbatim>\<open>error\<close> coming from
  the operating system or from the child process is an opaque value; \<open>None\<close> of
  \<open>error option\<close> is Go's \<^verbatim>\<open>nil\<close>.
\<close>

type_synonym bytes = string

datatype error = Error string

text \<open>
  A function either returns or panics. A panic unwinds the stack: deferred calls still
  run, nothing is returned.
\<close>

datatype 'a outcome = Return 'a | Panic string

text \<open>
  \<^verbatim>\<open>time.Time\<close>: seconds and nanoseconds since January 1 of year 1, 00:00:00 UTC.
  \<^verbatim>\<open>IsZero\<close> tests for that instant, \<^verbatim>\<open>Unix\<close> counts seconds from January 1, 1970.
\<close>

record time =
  sec :: int
  nsec :: int

definition IsZero :: "time \<Rightarrow> bool" where
  "IsZero t = (sec t = 0 \<and> nsec t = 0)"

definition unixToInternal :: int where
  "unixToInternal = (1969 * 365 + 1969 div 4 - 1969 div 100 + 1969 div 400) * 86400"

definition Unix :: "time \<Rightarrow> int" where
  "Unix t = sec t + - unixToInternal"

text \<open>
  \<^verbatim>\<open>UnixNano\<close> is \<^verbatim>\<open>unixSec * 1e9 + nsec\<close> in \<^verbatim>\<open>int64\<close>: outside the years 1678 to 2262
  the product wraps around, and the result is no longer the time.
\<close>

definition wrap64 :: "int \<Rightarrow> int" where
  "wrap64 x = (x + 2 ^ 63) mod 2 ^ 64 - 2 ^ 63"

definition UnixNano :: "time \<Rightarrow> int" where
  "UnixNano t = wrap64 (Unix t * 1000000000 + nsec t)"

subsection \<open>\<^verbatim>\<open>fmt.Sprintf("%d", n)\<close>\<close>

definition digit :: "nat \<Rightarrow> char" where
  "digit n = ''0123456789'' ! (n mod 10)"

fun formatBits :: "nat \<Rightarrow> string" where
  "formatBits n = (if n < 10 then [digit n] else formatBits (n div 10) @ [digit n])"

declare formatBits.simps [simp del]

definition Sprintf_d :: "int \<Rightarrow> string" where
  "Sprintf_d n = (if n < 0 then CHR ''-'' # formatBits (nat (- n)) else formatBits (nat n))"

subsection \<open>\<^verbatim>\<open>strings.HasSuffix\<close>\<close>

definition HasSuffix :: "string \<Rightarrow> string \<Rightarrow> bool" where
  "HasSuffix s suffix =
     (length suffix \<le> length s \<and> drop (length s - length suffix) s = suffix)"

subsection \<open>Package \<^verbatim>\<open>path\<close>: slash-separated paths\<close>

text \<open>
  \<^verbatim>\<open>path.Clean\<close> reads the path element by element: empty elements and \<^verbatim>\<open>.\<close> are dropped,
  \<^verbatim>\<open>..\<close> removes the element written before it, is dropped at the root, and is kept at
  the start of a path that is not rooted. The elements kept are joined by single slashes;
  nothing kept gives \<^verbatim>\<open>.\<close>.
\<close>

fun split_slash :: "string \<Rightarrow> string list" where
  "split_slash [] = [[]]"
| "split_slash (c # cs) =
     (if c = CHR ''/'' then [] # split_slash cs
      else (case split_slash cs of [] \<Rightarrow> [[c]] | x # xs \<Rightarrow> (c # x) # xs))"

fun join_slash :: "string list \<Rightarrow> string" where
  "join_slash [] = []"
| "join_slash [e] = e"
| "join_slash (e # es) = e @ CHR ''/'' # join_slash es"

fun clean_elems :: "bool \<Rightarrow> string list \<Rightarrow> string list \<Rightarrow> string list" where
  "clean_elems rooted out [] = out"
| "clean_elems rooted out (e # es) =
     (if e = [] then clean_elems rooted out es
      else if e = ''.'' then clean_elems rooted out es
      else if e = ''..'' then
        (if out \<noteq> [] \<and> last out \<noteq> ''..'' then clean_elems rooted (butlast out) es
         else if \<not> rooted then clean_elems rooted (out @ [''..'']) es
         else clean_elems rooted out es)
      else clean_elems rooted (out @ [e]) es)"

definition path_Clean :: "string \<Rightarrow> string" where
  "path_Clean path =
     (if path = [] then ''.''
      else let rooted = (hd path = CHR ''/'');
               out = (if rooted then ''/'' else []) @
                     join_slash (clean_elems rooted [] (split_slash path))
           in if out = [] then ''.'' else out)"

text \<open>\<^verbatim>\<open>path.Join\<close> ignores empty elements, joins the others with slashes and cleans.\<close>

definition path_Join :: "string list \<Rightarrow> string" where
  "path_Join elem =
     (if concat elem = [] then []
      else path_Clean (join_slash (filter (\<lambda>e. e \<noteq> []) elem)))"

text \<open>\<^verbatim>\<open>path.Split\<close> cuts after the last slash.\<close>

definition path_Split :: "string \<Rightarrow> string \<times> string" where
  "path_Split path =
     (let file = rev (takeWhile (\<lambda>c. c \<noteq> CHR ''/'') (rev path))
      in (take (length path - length file) path, file))"

definition path_Dir :: "string \<Rightarrow> string" where
  "path_Dir path = path_Clean (fst (path_Split path))"

definition path_Base :: "string \<Rightarrow> string" where
  "path_Base path =
     (if path = [] then ''.''
      else let stripped = rev (dropWhile (\<lambda>c. c = CHR ''/'') (rev path));
               elem = snd (path_Split stripped)
           in if elem = [] then ''/'' else elem)"

section \<open>The data of the program\<close>

text \<open>
  \<^verbatim>\<open>fs.FileInfo\<close>, and \<^verbatim>\<open>fsutil.FileReference\<close>, the interface that embeds it and adds
  \<^verbatim>\<open>FullName\<close> and \<^verbatim>\<open>Open\<close>. A method of the interface is a field holding what the call
  returns. \<^verbatim>\<open>Open\<close> gives a reader, of which the program uses \<^verbatim>\<open>io.ReadAll\<close> and \<^verbatim>\<open>Close\<close>.
\<close>

record file_info =
  Name :: string
  Size :: int
  Mode :: "32 word"
  ModTime :: time
  IsDir :: bool

record reader =
  ReadAll :: "error + bytes"
  Close :: "error option"

record file_reference = file_info +
  FullName :: string
  Open :: "error + reader"

text \<open>\<^verbatim>\<open>fsutil.InMemFileReference\<close>; \<open>MContent = None\<close> is the nil slice.\<close>

record in_mem_file_reference =
  FileInfo :: file_info
  MFullName :: string
  MContent :: "bytes option"

type_synonym vfs = "string \<rightharpoonup> in_mem_file_reference"

text \<open>
  \<^verbatim>\<open>exec.Cmd\<close> as \<^verbatim>\<open>dexec.CommandContext\<close> builds it: \<open>Args\<close> starts with the program,
  \<open>Env = None\<close> is the nil slice, with which the child inherits the environment of the
  parent.
\<close>

record cmd =
  Path :: string
  Args :: "string list"
  Dir :: string
  Env :: "string list option"

definition CommandContext :: "string \<Rightarrow> string list \<Rightarrow> cmd" where
  "CommandContext name arg = \<lparr>Path = name, Args = name # arg, Dir = [], Env = None\<rparr>"

section \<open>The workspace as \<^verbatim>\<open>fs.WalkDir\<close> reads it\<close>

text \<open>
  What \<^verbatim>\<open>os.DirFS(tmpdir)\<close> shows once the child process is gone. An entry carries its
  name and what the calls made on it return: \<^verbatim>\<open>d.Info()\<close>; for a file, \<^verbatim>\<open>dirFS.Open(p)\<close>
  and, when that succeeds, \<^verbatim>\<open>io.ReadAll\<close> on the handle; for a directory, the entries
  and the error of \<^verbatim>\<open>fs.ReadDir\<close>, which returns both.
\<close>

datatype node =
    File string "error + file_info" "error + (error + bytes)"
  | Directory string "error + file_info" "node list" "error option"

fun d_Name :: "node \<Rightarrow> string" where
  "d_Name (File n i c) = n"
| "d_Name (Directory n i ds r) = n"

fun d_IsDir :: "node \<Rightarrow> bool" where
  "d_IsDir (File n i c) = False"
| "d_IsDir (Directory n i ds r) = True"

fun d_Info :: "node \<Rightarrow> error + file_info" where
  "d_Info (File n i c) = i"
| "d_Info (Directory n i ds r) = i"

text \<open>
  What the callback of a walk returns: nil, one of the sentinels \<^verbatim>\<open>fs.SkipDir\<close> and
  \<^verbatim>\<open>fs.SkipAll\<close>, or an error of the operating system, which is never equal to a
  sentinel. \<open>NilDeref\<close> stands for the panic of a method call on a nil \<^verbatim>\<open>fs.DirEntry\<close>;
  no comparison of the walk matches it, so it unwinds the walk.
\<close>

datatype walk_error = SkipDir | SkipAll | Err error | NilDeref

type_synonym 's WalkDirFunc =
  "string \<Rightarrow> node option \<Rightarrow> error option \<Rightarrow> 's \<Rightarrow> walk_error option \<times> 's"

text \<open>
  \<^verbatim>\<open>fs.walkDir\<close>. The callback is called on the entry; on a directory it is called a
  second time when \<^verbatim>\<open>ReadDir\<close> failed, and then on each entry read. \<open>'s\<close> is what the
  callback mutates.
\<close>

fun walkDir :: "'s WalkDirFunc \<Rightarrow> string \<Rightarrow> node \<Rightarrow> 's \<Rightarrow> walk_error option \<times> 's"
  and walkDir_range :: "'s WalkDirFunc \<Rightarrow> string \<Rightarrow> node list \<Rightarrow> 's \<Rightarrow> walk_error option \<times> 's"
where
  "walkDir fn name (File n i c) s = fn name (Some (File n i c)) None s"
| "walkDir fn name (Directory n i dirs rerr) s =
     (case fn name (Some (Directory n i dirs rerr)) None s of
        (Some err, s1) \<Rightarrow> (if err = SkipDir then None else Some err, s1)
      | (None, s1) \<Rightarrow>
          (case rerr of
             None \<Rightarrow> walkDir_range fn name dirs s1
           | Some e \<Rightarrow>
               (case fn name (Some (Directory n i dirs rerr)) (Some e) s1 of
                  (Some err, s2) \<Rightarrow> (if err = SkipDir then None else Some err, s2)
                | (None, s2) \<Rightarrow> walkDir_range fn name dirs s2)))"
| "walkDir_range fn name [] s = (None, s)"
| "walkDir_range fn name (d1 # ds) s =
     (case walkDir fn (path_Join [name, d_Name d1]) d1 s of
        (Some err, s1) \<Rightarrow> (if err = SkipDir then None else Some err, s1)
      | (None, s1) \<Rightarrow> walkDir_range fn name ds s1)"

text \<open>
  \<^verbatim>\<open>fs.WalkDir\<close> on the root \<^verbatim>\<open>.\<close>: \<open>fsys\<close> is what \<^verbatim>\<open>fs.Stat(fsys, root)\<close> returns, the error
  or the root entry.
\<close>

definition WalkDir ::
  "error + node \<Rightarrow> string \<Rightarrow> 's WalkDirFunc \<Rightarrow> 's \<Rightarrow> error option outcome \<times> 's" where
  "WalkDir fsys root fn s =
     (case (case fsys of
              Inl err \<Rightarrow> fn root None (Some err) s
            | Inr d \<Rightarrow> walkDir fn root d s) of
        (None, s') \<Rightarrow> (Return None, s')
      | (Some SkipDir, s') \<Rightarrow> (Return None, s')
      | (Some SkipAll, s') \<Rightarrow> (Return None, s')
      | (Some (Err err), s') \<Rightarrow> (Return (Some err), s')
      | (Some NilDeref, s') \<Rightarrow> (Panic ''invalid memory address or nil pointer dereference'', s'))"

section \<open>The operating system\<close>

text \<open>
  The calls the program makes on the operating system change it, so they pass a state:
  the regular files written so far, with content and times, and the calls made, in order.
  Whether a call fails, and what a call reads, is not the program's to decide: the
  \<open>world\<close> holds the answer to every call. \<open>Run\<close> answers \<^verbatim>\<open>cmd.Run()\<close> from the command
  and the files present with the error of the child process and with what
  \<^verbatim>\<open>os.DirFS(cmd.Dir)\<close> shows afterwards. \<open>filepath_Join\<close> and \<open>filepath_Abs\<close> are the
  host's \<^verbatim>\<open>path/filepath\<close>, whose separator and rules differ between hosts.
\<close>

record file_state =
  st_content :: bytes
  st_atime :: time
  st_mtime :: time

type_synonym files = "string \<rightharpoonup> file_state"

record world =
  LookPath :: "string \<Rightarrow> error + string"
  filepath_Abs :: "string \<Rightarrow> error + string"
  filepath_Join :: "string list \<Rightarrow> string"
  Environ :: "string list"
  Now :: time
  MkdirTemp :: "string \<Rightarrow> string \<Rightarrow> error + string"
  WriteFile :: "string \<Rightarrow> bytes \<Rightarrow> nat \<Rightarrow> error option"
  Chtimes :: "string \<Rightarrow> time \<Rightarrow> time \<Rightarrow> error option"
  Run :: "cmd \<Rightarrow> files \<Rightarrow> error option \<times> (error + node)"
  RemoveAll :: "string \<Rightarrow> error option"

datatype event =
    EvMkdirTemp string string
  | EvWriteFile string bytes nat
  | EvChtimes string time time
  | EvRun cmd files
  | EvRemoveAll string

record os_state =
  files :: files
  calls :: "event list"

definition called :: "event \<Rightarrow> os_state \<Rightarrow> os_state" where
  "called ev s = s\<lparr>calls := calls s @ [ev]\<rparr>"

definition os_MkdirTemp :: "world \<Rightarrow> string \<Rightarrow> string \<Rightarrow> os_state \<Rightarrow> (error + string) \<times> os_state" where
  "os_MkdirTemp w dir pattern s = (MkdirTemp w dir pattern, called (EvMkdirTemp dir pattern) s)"

text \<open>\<^verbatim>\<open>os.WriteFile\<close> creates the file with the given content; its times are the clock's.\<close>

definition os_WriteFile ::
  "world \<Rightarrow> string \<Rightarrow> bytes \<Rightarrow> nat \<Rightarrow> os_state \<Rightarrow> error option \<times> os_state" where
  "os_WriteFile w name data perm s =
     (case WriteFile w name data perm of
        Some err \<Rightarrow> (Some err, called (EvWriteFile name data perm) s)
      | None \<Rightarrow>
          (None, called (EvWriteFile name data perm)
                   (s\<lparr>files := (files s)(name \<mapsto>
                        \<lparr>st_content = data, st_atime = Now w, st_mtime = Now w\<rparr>)\<rparr>)))"

text \<open>
  \<^verbatim>\<open>os.Chtimes\<close> changes the access and modification times of the named file. Each of
  the two times goes through the local function \<^verbatim>\<open>set\<close>: a zero \<^verbatim>\<open>time.Time\<close> leaves the
  time of the file as it is (\<^verbatim>\<open>UTIME_OMIT\<close>); any other time is passed to the system call
  as \<^verbatim>\<open>syscall.NsecToTimespec(t.UnixNano())\<close>, seconds and nanoseconds from 1970, and that
  is the time the file gets.
\<close>

definition NsecToTimespec :: "int \<Rightarrow> int \<times> int" where
  "NsecToTimespec n = (n div 1000000000, n mod 1000000000)"

definition Chtimes_set :: "time \<Rightarrow> time \<Rightarrow> time" where
  "Chtimes_set t old =
     (if IsZero t then old
      else case NsecToTimespec (UnixNano t) of
             (s, ns) \<Rightarrow> \<lparr>sec = s + unixToInternal, nsec = ns\<rparr>)"

definition os_Chtimes ::
  "world \<Rightarrow> string \<Rightarrow> time \<Rightarrow> time \<Rightarrow> os_state \<Rightarrow> error option \<times> os_state" where
  "os_Chtimes w name a m s =
     (case Chtimes w name a m of
        Some err \<Rightarrow> (Some err, called (EvChtimes name a m) s)
      | None \<Rightarrow>
          (None, called (EvChtimes name a m)
                   (case files s name of
                      None \<Rightarrow> s
                    | Some st \<Rightarrow>
                        s\<lparr>files := (files s)(name \<mapsto>
                             st\<lparr>st_atime := Chtimes_set a (st_atime st),
                                st_mtime := Chtimes_set m (st_mtime st)\<rparr>)\<rparr>)))"

definition os_Run :: "world \<Rightarrow> cmd \<Rightarrow> os_state \<Rightarrow> (error option \<times> (error + node)) \<times> os_state" where
  "os_Run w c s = (Run w c (files s), called (EvRun c (files s)) s)"

text \<open>\<^verbatim>\<open>os.RemoveAll\<close> removes the path and everything below it.\<close>

definition below :: "string \<Rightarrow> string \<Rightarrow> bool" where
  "below dir p = (p = dir \<or> take (length dir + 1) p = dir @ ''/'')"

definition os_RemoveAll :: "world \<Rightarrow> string \<Rightarrow> os_state \<Rightarrow> error option \<times> os_state" where
  "os_RemoveAll w p s =
     (case RemoveAll w p of
        Some err \<Rightarrow> (Some err, called (EvRemoveAll p) s)
      | None \<Rightarrow>
          (None, called (EvRemoveAll p)
                   (s\<lparr>files := (\<lambda>q. if below p q then None else files s q)\<rparr>)))"

section \<open>The compiler\<close>

text \<open>
  The callback given to \<^verbatim>\<open>fs.WalkDir\<close> (lines 98 to 133). It mutates the map \<open>vfs\<close>.
  \<open>read_content\<close> is the block guarded by \<^verbatim>\<open>!d.IsDir()\<close>: open, read all; the error of
  the deferred \<^verbatim>\<open>fh.Close()\<close> is dropped. For a directory \<open>content\<close> stays nil.
\<close>

fun read_content :: "node \<Rightarrow> error + bytes option" where
  "read_content (Directory n i ds r) = Inr None"
| "read_content (File n i c) =
     (case c of
        Inl err \<Rightarrow> Inl err
      | Inr fh \<Rightarrow> (case fh of Inl err \<Rightarrow> Inl err | Inr b \<Rightarrow> Inr (Some b)))"

definition walkFn :: "file_reference \<Rightarrow> vfs WalkDirFunc" where
  "walkFn input p d e vfs =
     (case e of
        Some e' \<Rightarrow> (Some (Err e'), vfs)
      | None \<Rightarrow>
          if p = ''.'' then (None, vfs)
          else
            (case d of
               None \<Rightarrow> (Some NilDeref, vfs)
             | Some d \<Rightarrow>
                 if \<not> HasSuffix p ''.pyc'' \<and> \<not> d_IsDir d then (None, vfs)
                 else
                   (case d_Info d of
                      Inl err \<Rightarrow> (Some (Err err), vfs)
                    | Inr info \<Rightarrow>
                        (case read_content d of
                           Inl err \<Rightarrow> (Some (Err err), vfs)
                         | Inr content \<Rightarrow>
                             let fullname = path_Join [path_Dir (FullName input), p]
                             in (None, vfs(fullname \<mapsto>
                                   \<lparr>FileInfo = info, MFullName = fullname,
                                    MContent = content\<rparr>))))))"

text \<open>
  \<^verbatim>\<open>maybeSetErr\<close> assigns the named result \<^verbatim>\<open>err\<close>; here it returns the new value.
\<close>

definition maybeSetErr :: "error option \<Rightarrow> error option \<Rightarrow> error option" where
  "maybeSetErr err err' = (if err' \<noteq> None \<and> err = None then err' else err)"

text \<open>
  The closure, from the statement after the \<^verbatim>\<open>defer\<close> to the last \<^verbatim>\<open>return\<close> (lines 54
  to 137). Every \<^verbatim>\<open>return nil, err\<close> is a branch. \<^verbatim>\<open>cmdline[1:]\<close> is \<open>drop 1 cmdline\<close>:
  the closure exists only for a \<open>cmdline\<close> that is not empty. \<^verbatim>\<open>0666\<close> is 438.
\<close>

definition closure_body ::
  "world \<Rightarrow> string \<Rightarrow> string list \<Rightarrow> time \<Rightarrow> file_reference \<Rightarrow> string \<Rightarrow> os_state
     \<Rightarrow> (vfs option \<times> error option) outcome \<times> os_state" where
  "closure_body w exe cmdline clampTime input tmpdir s =
     (case Open input of
        Inl err \<Rightarrow> (Return (None, Some err), s)
      | Inr inReader \<Rightarrow>
     (case ReadAll inReader of
        Inl err \<Rightarrow> (Return (None, Some err), s)
      | Inr inBytes \<Rightarrow>
     (case Close inReader of
        Some err \<Rightarrow> (Return (None, Some err), s)
      | None \<Rightarrow>
     (let filename = filepath_Join w [tmpdir, path_Base (FullName input)] in
     (case os_WriteFile w filename inBytes 438 s of
        (Some err, s1) \<Rightarrow> (Return (None, Some err), s1)
      | (None, s1) \<Rightarrow>
     (case os_Chtimes w filename (ModTime input) (ModTime input) s1 of
        (Some err, s2) \<Rightarrow> (Return (None, Some err), s2)
      | (None, s2) \<Rightarrow>
     (let cmd0 = CommandContext exe
                   (drop 1 cmdline @
                    [''-p'', path_Join [''/'', path_Dir (FullName input)], Name input]);
          cmd1 = cmd0\<lparr>Dir := tmpdir\<rparr>;
          cmd2 = (if \<not> IsZero clampTime
                  then cmd1\<lparr>Env := Some (Environ w @
                         [''PYTHONHASHSEED=0'',
                          ''SOURCE_DATE_EPOCH='' @ Sprintf_d (Unix clampTime)])\<rparr>
                  else cmd1) in
     (case os_Run w cmd2 s2 of
        ((Some err, dirFS), s3) \<Rightarrow> (Return (None, Some err), s3)
      | ((None, dirFS), s3) \<Rightarrow>
     (case WalkDir dirFS ''.'' (walkFn input) Map.empty of
        (Panic msg, vfs) \<Rightarrow> (Panic msg, s3)
      | (Return (Some err), vfs) \<Rightarrow> (Return (None, Some err), s3)
      | (Return None, vfs) \<Rightarrow> (Return (Some vfs, None), s3))))))))))"

text \<open>
  The closure (lines 38 to 138): the temporary directory, the body, and the deferred
  \<^verbatim>\<open>maybeSetErr(os.RemoveAll(tmpdir))\<close>, which runs after the body has set the results
  and also when the body panics. The \<^verbatim>\<open>defer\<close> is registered only once \<^verbatim>\<open>os.MkdirTemp\<close>
  has succeeded.
\<close>

definition closure ::
  "string \<Rightarrow> string list \<Rightarrow> world \<Rightarrow> time \<Rightarrow> file_reference \<Rightarrow> os_state
     \<Rightarrow> (vfs option \<times> error option) outcome \<times> os_state" where
  "closure exe cmdline w clampTime input s =
     (case os_MkdirTemp w [] ''ocibuild-pycompile.'' s of
        (Inl err, s1) \<Rightarrow> (Return (None, Some err), s1)
      | (Inr tmpdir, s1) \<Rightarrow>
          (case closure_body w exe cmdline clampTime input tmpdir s1 of
             (r, s2) \<Rightarrow>
               (case os_RemoveAll w tmpdir s2 of
                  (rmErr, s3) \<Rightarrow>
                    (case r of
                       Panic msg \<Rightarrow> (Panic msg, s3)
                     | Return (compiled, err) \<Rightarrow>
                         (Return (compiled, maybeSetErr err rmErr), s3)))))"

text \<open>
  \<^verbatim>\<open>ExternalCompiler\<close> (lines 29 to 37). \<^verbatim>\<open>cmdline[0]\<close> on an empty slice is a run-time
  panic. The closure returned runs in the world and the state of its own call.
\<close>

type_synonym Compiler =
  "world \<Rightarrow> time \<Rightarrow> file_reference \<Rightarrow> os_state
     \<Rightarrow> (vfs option \<times> error option) outcome \<times> os_state"

definition ExternalCompiler :: "world \<Rightarrow> string list \<Rightarrow> (Compiler option \<times> error option) outcome" where
  "ExternalCompiler w cmdline =
     (case cmdline of
        [] \<Rightarrow> Panic ''index out of range [0] with length 0''
      | c0 # rest \<Rightarrow>
          (case LookPath w c0 of
             Inl err \<Rightarrow> Return (None, Some err)
           | Inr exe \<Rightarrow>
               (case filepath_Abs w exe of
                  Inl err \<Rightarrow> Return (None, Some err)
                | Inr exe' \<Rightarrow> Return (Some (closure exe' cmdline), None))))"

definition invocation_calls ::
  "string \<Rightarrow> string list \<Rightarrow> world \<Rightarrow> time \<Rightarrow> file_reference \<Rightarrow> os_state \<Rightarrow> event list" where
  "invocation_calls exe cmdline w clampTime input s =
     drop (length (calls s)) (calls (snd (closure exe cmdline w clampTime input s)))"

definition ex_info :: "string \<Rightarrow> bool \<Rightarrow> file_info" where
  "ex_info n d = \<lparr>Name = n, Size = 5, Mode = 420, ModTime = \<lparr>sec = 63000000000, nsec = 0\<rparr>, IsDir = d\<rparr>"

definition ex_tree :: node where
  "ex_tree = Directory ''.'' (Inr (ex_info ''.'' True))
     [File ''mod.py'' (Inl (Error ''stat'')) (Inl (Error ''open'')),
      Directory ''__pycache__'' (Inr (ex_info ''__pycache__'' True))
        [File ''mod.pyc'' (Inr (ex_info ''mod.pyc'' False)) (Inr (Inr ''BYTES''))] None] None"

definition ex_world :: world where
  "ex_world = \<lparr>LookPath = (\<lambda>n. Inr (''/usr/bin/'' @ n)), filepath_Abs = Inr, filepath_Join = path_Join,
     Environ = [''HOME=/root''], Now = \<lparr>sec = 63000000000, nsec = 0\<rparr>,
     MkdirTemp = (\<lambda>d p. Inr (''/tmp/'' @ p @ ''1'')), WriteFile = (\<lambda>_ _ _. None),
     Chtimes = (\<lambda>_ _ _. None), Run = (\<lambda>c fs. (None, Inr ex_tree)), RemoveAll = (\<lambda>_. None)\<rparr>"

definition ex_mtime :: time where "ex_mtime = \<lparr>sec = 62000000000, nsec = 5\<rparr>"

definition ex_input :: file_reference where
  "ex_input = \<lparr>Name = ''mod.py'', Size = 7, Mode = 420, ModTime = ex_mtime, IsDir = False,
     FullName = ''pkg/mod.py'', Open = Inr \<lparr>ReadAll = Inr ''print()'', Close = None\<rparr>\<rparr>"

definition ex_exe :: string where "ex_exe = ''/usr/bin/python3''"

definition ex_cmdline :: "string list" where "ex_cmdline = [''python3'', ''-m'', ''compileall'']"

definition ex_state :: os_state where "ex_state = \<lparr>files = Map.empty, calls = []\<rparr>"

definition ex_clamp :: time where "ex_clamp = \<lparr>sec = 62135596801, nsec = 0\<rparr>"

definition ex_cmd :: cmd where
  "ex_cmd = \<lparr>Path = ex_exe,
     Args = [ex_exe, ''-m'', ''compileall'', ''-p'', ''/pkg'', ''mod.py''],
     Dir = ''/tmp/ocibuild-pycompile.1'',
     Env = Some [''HOME=/root'', ''PYTHONHASHSEED=0'', ''SOURCE_DATE_EPOCH=1'']\<rparr>"

definition ex_files :: files where
  "ex_files = [''/tmp/ocibuild-pycompile.1/mod.py'' \<mapsto>
     \<lparr>st_content = ''print()'', st_atime = ex_mtime, st_mtime = ex_mtime\<rparr>]"

definition ex_vfs :: vfs where
  "ex_vfs = [''pkg/__pycache__'' \<mapsto> \<lparr>FileInfo = ex_info ''__pycache__'' True, MFullName = ''pkg/__pycache__'', MContent = None\<rparr>,
     ''pkg/__pycache__/mod.pyc'' \<mapsto> \<lparr>FileInfo = ex_info ''mod.pyc'' False, MFullName = ''pkg/__pycache__/mod.pyc'', MContent = Some ''BYTES''\<rparr>]"

definition ex_world_failing :: world where
  "ex_world_failing = ex_world
     \<lparr>Run := (\<lambda>c fs. (Some (Error ''exit status 1''), Inr ex_tree)),
      RemoveAll := (\<lambda>p. Some (Error ''unlinkat: permission denied''))\<rparr>"

definition valid_name :: "string \<Rightarrow> bool" where
  "valid_name n = (n \<noteq> [] \<and> CHR ''/'' \<notin> set n \<and> n \<noteq> ''.'' \<and> n \<noteq> ''..'')"

definition rel :: "string list \<Rightarrow> string" where
  "rel ns = (if ns = [] then ''.'' else join_slash ns)"

fun wf_node :: "node \<Rightarrow> bool" where
  "wf_node (File n i c) = valid_name n"
| "wf_node (Directory n i ds r) = (valid_name n \<and> (\<forall>d \<in> set ds. wf_node d))"

definition wf_workspace :: "error + node \<Rightarrow> bool" where
  "wf_workspace fsys =
     (case fsys of
        Inl err \<Rightarrow> True
      | Inr (File n i c) \<Rightarrow> True
      | Inr (Directory n i ds r) \<Rightarrow> (\<forall>d \<in> set ds. wf_node d))"

definition virtual_name :: "file_reference \<Rightarrow> string list \<Rightarrow> string" where
  "virtual_name input ns = path_Join [path_Dir (FullName input), join_slash ns]"

fun collect_entry :: "file_reference \<Rightarrow> string list \<Rightarrow> node \<Rightarrow> vfs \<Rightarrow> error + vfs"
  and collect_entries :: "file_reference \<Rightarrow> string list \<Rightarrow> node list \<Rightarrow> vfs \<Rightarrow> error + vfs"
where
  "collect_entry input ns (File n i c) vfs =
     (if HasSuffix n ''.pyc'' then
        (case i of
           Inl err \<Rightarrow> Inl err
         | Inr info \<Rightarrow>
             (case c of
                Inl err \<Rightarrow> Inl err
              | Inr fh \<Rightarrow>
                  (case fh of
                     Inl err \<Rightarrow> Inl err
                   | Inr b \<Rightarrow>
                       Inr (vfs(virtual_name input (ns @ [n]) \<mapsto>
                              \<lparr>FileInfo = info, MFullName = virtual_name input (ns @ [n]),
                               MContent = Some b\<rparr>)))))
      else Inr vfs)"
| "collect_entry input ns (Directory n i ds r) vfs =
     (case i of
        Inl err \<Rightarrow> Inl err
      | Inr info \<Rightarrow>
          (case r of
             Some err \<Rightarrow> Inl err
           | None \<Rightarrow>
               collect_entries input (ns @ [n]) ds
                 (vfs(virtual_name input (ns @ [n]) \<mapsto>
                    \<lparr>FileInfo = info, MFullName = virtual_name input (ns @ [n]),
                     MContent = None\<rparr>))))"
| "collect_entries input ns [] vfs = Inr vfs"
| "collect_entries input ns (d # ds) vfs =
     (case collect_entry input ns d vfs of
        Inl err \<Rightarrow> Inl err
      | Inr vfs' \<Rightarrow> collect_entries input ns ds vfs')"

definition collect_workspace :: "file_reference \<Rightarrow> error + node \<Rightarrow> error + vfs" where
  "collect_workspace input fsys =
     (case fsys of
        Inl err \<Rightarrow> Inl err
      | Inr (File n i c) \<Rightarrow> Inr Map.empty
      | Inr (Directory n i ds r) \<Rightarrow>
          (case r of
             Some err \<Rightarrow> Inl err
           | None \<Rightarrow> collect_entries input [] ds Map.empty))"

definition agrees :: "walk_error option \<times> vfs \<Rightarrow> error + vfs \<Rightarrow> bool" where
  "agrees r spec = (case spec of Inl e \<Rightarrow> fst r = Some (Err e) | Inr vfs' \<Rightarrow> r = (None, vfs'))"

fun selected :: "string list \<Rightarrow> node \<Rightarrow> string list list"
  and selected_range :: "string list \<Rightarrow> node list \<Rightarrow> string list list"
where
  "selected ns (File n i c) = (if HasSuffix n ''.pyc'' then [ns @ [n]] else [])"
| "selected ns (Directory n i ds r) = (ns @ [n]) # selected_range (ns @ [n]) ds"
| "selected_range ns [] = []"
| "selected_range ns (d # ds) = selected ns d @ selected_range ns ds"

definition selected_workspace :: "error + node \<Rightarrow> string list list" where
  "selected_workspace fsys =
     (case fsys of
        Inl err \<Rightarrow> []
      | Inr (File n i c) \<Rightarrow> []
      | Inr (Directory n i ds r) \<Rightarrow> selected_range [] ds)"

definition keyed :: "vfs \<Rightarrow> bool" where
  "keyed vfs = (\<forall>k ref. vfs k = Some ref \<longrightarrow> MFullName ref = k)"

definition ex_tree_unreadable :: node where
  "ex_tree_unreadable = Directory ''.'' (Inr (ex_info ''.'' True))
     [Directory ''__pycache__'' (Inr (ex_info ''__pycache__'' True))
        [File ''mod.pyc'' (Inr (ex_info ''mod.pyc'' False))
           (Inr (Inl (Error ''read: input/output error'')))] None] None"

definition ex_world_unreadable :: world where
  "ex_world_unreadable = ex_world\<lparr>Run := (\<lambda>c fs. (None, Inr ex_tree_unreadable))\<rparr>"

definition command :: "string \<Rightarrow> string list \<Rightarrow> world \<Rightarrow> time \<Rightarrow> file_reference \<Rightarrow> string \<Rightarrow> cmd" where
  "command exe cmdline w clampTime input tmpdir =
     \<lparr>Path = exe,
      Args = exe # drop 1 cmdline @
               [''-p'', path_Join [''/'', path_Dir (FullName input)], Name input],
      Dir = tmpdir,
      Env = (if IsZero clampTime then None
             else Some (Environ w @ [''PYTHONHASHSEED=0'',
                          ''SOURCE_DATE_EPOCH='' @ Sprintf_d (Unix clampTime)]))\<rparr>"

definition staged :: "world \<Rightarrow> file_reference \<Rightarrow> string \<Rightarrow> bytes \<Rightarrow> files \<Rightarrow> files" where
  "staged w input tmpdir inBytes fs =
     fs(filepath_Join w [tmpdir, path_Base (FullName input)] \<mapsto>
          \<lparr>st_content = inBytes, st_atime = Chtimes_set (ModTime input) (Now w),
           st_mtime = Chtimes_set (ModTime input) (Now w)\<rparr>)"

definition in_UnixNano_range :: "time \<Rightarrow> bool" where
  "in_UnixNano_range t =
     (0 \<le> nsec t \<and> nsec t < 1000000000 \<and>
      - (2 ^ 63) \<le> Unix t * 1000000000 + nsec t \<and>
      Unix t * 1000000000 + nsec t < 2 ^ 63)"

definition ex_input_zero :: file_reference where
  "ex_input_zero = ex_input\<lparr>ModTime := \<lparr>sec = 0, nsec = 0\<rparr>\<rparr>"

definition ex_files_zero :: files where
  "ex_files_zero = [''/tmp/ocibuild-pycompile.1/mod.py'' \<mapsto>
     \<lparr>st_content = ''print()'', st_atime = \<lparr>sec = 63000000000, nsec = 0\<rparr>,
      st_mtime = \<lparr>sec = 63000000000, nsec = 0\<rparr>\<rparr>]"




definition set_ModTime :: "time \<Rightarrow> file_info \<Rightarrow> file_info" where
  "set_ModTime t info = info\<lparr>ModTime := t\<rparr>"

fun stamp :: "time \<Rightarrow> node \<Rightarrow> node" where
  "stamp t (File n i c) = File n (map_sum id (set_ModTime t) i) c"
| "stamp t (Directory n i ds r) =
     Directory n (map_sum id (set_ModTime t) i) (map (stamp t) ds) r"














lemmas os_defs = os_MkdirTemp_def os_WriteFile_def os_Chtimes_def os_Run_def os_RemoveAll_def called_def

lemma closure_body_calls:
  "\<exists>evs. calls (snd (closure_body w exe cmdline clampTime input tmpdir s)) = calls s @ evs \<and>
         (\<forall>ev \<in> set evs. \<forall>p. ev \<noteq> EvRemoveAll p)"
  by (auto simp: closure_body_def os_defs Let_def split: sum.splits option.splits prod.splits outcome.splits)

lemma calls_os_RemoveAll: "calls (snd (os_RemoveAll w p s)) = calls s @ [EvRemoveAll p]"
  by (simp add: os_defs split: option.splits)

lemma closure_Inl:
  "MkdirTemp w [] ''ocibuild-pycompile.'' = Inl e \<Longrightarrow>
   closure exe cmdline w clampTime input s =
     (Return (None, Some e), called (EvMkdirTemp [] ''ocibuild-pycompile.'') s)"
  by (simp add: closure_def os_MkdirTemp_def)

lemma closure_Inr:
  "MkdirTemp w [] ''ocibuild-pycompile.'' = Inr tmpdir \<Longrightarrow>
   closure exe cmdline w clampTime input s =
     (case closure_body w exe cmdline clampTime input tmpdir
             (called (EvMkdirTemp [] ''ocibuild-pycompile.'') s) of
        (r, s2) \<Rightarrow>
          (case r of
             Panic msg \<Rightarrow> Panic msg
           | Return (compiled, err) \<Rightarrow> Return (compiled, maybeSetErr err (RemoveAll w tmpdir)),
           snd (os_RemoveAll w tmpdir s2)))"
  by (simp add: closure_def os_MkdirTemp_def os_RemoveAll_def split: prod.splits outcome.splits option.splits)

lemma closure_calls_Inr:
  assumes "MkdirTemp w [] ''ocibuild-pycompile.'' = Inr tmpdir"
  shows "\<exists>evs. calls (snd (closure exe cmdline w clampTime input s)) =
           calls s @ EvMkdirTemp [] ''ocibuild-pycompile.'' # evs @ [EvRemoveAll tmpdir] \<and>
           calls (snd (closure_body w exe cmdline clampTime input tmpdir
             (called (EvMkdirTemp [] ''ocibuild-pycompile.'') s))) = 
           calls s @ EvMkdirTemp [] ''ocibuild-pycompile.'' # evs \<and>
           (\<forall>ev \<in> set evs. \<forall>p. ev \<noteq> EvRemoveAll p)"
proof -
  let ?s1 = "called (EvMkdirTemp [] ''ocibuild-pycompile.'') s"
  obtain evs where evs: "calls (snd (closure_body w exe cmdline clampTime input tmpdir ?s1)) = calls ?s1 @ evs"
    "\<forall>ev \<in> set evs. \<forall>p. ev \<noteq> EvRemoveAll p"
    using closure_body_calls by blast
  have "calls (snd (closure exe cmdline w clampTime input s)) =
          calls (snd (closure_body w exe cmdline clampTime input tmpdir ?s1)) @ [EvRemoveAll tmpdir]"
    by (simp add: closure_Inr [OF assms] calls_os_RemoveAll split: prod.splits)
  with evs show ?thesis by (auto simp: called_def)
qed

lemma closure_calls:
  "calls (snd (closure exe cmdline w clampTime input s)) =
     calls s @ invocation_calls exe cmdline w clampTime input s"
proof (cases "MkdirTemp w [] ''ocibuild-pycompile.''")
  case (Inl e)
  then show ?thesis by (simp add: invocation_calls_def closure_Inl called_def)
next
  case (Inr tmpdir)
  from closure_calls_Inr [OF this, of exe cmdline clampTime input s]
  obtain evs where "calls (snd (closure exe cmdline w clampTime input s)) =
      calls s @ EvMkdirTemp [] ''ocibuild-pycompile.'' # evs @ [EvRemoveAll tmpdir]"
    by blast
  then show ?thesis
    by (simp add: invocation_calls_def)
qed

lemma closure_body_Run:
  assumes "calls (snd (closure_body w exe cmdline clampTime input tmpdir s)) = calls s @ evs"
    and "EvRun c fs \<in> set evs"
  shows "\<exists>inReader inBytes.
           Open input = Inr inReader \<and> ReadAll inReader = Inr inBytes \<and> Close inReader = None \<and>
           WriteFile w (filepath_Join w [tmpdir, path_Base (FullName input)]) inBytes 438 = None \<and>
           Chtimes w (filepath_Join w [tmpdir, path_Base (FullName input)])
             (ModTime input) (ModTime input) = None \<and>
           c = \<lparr>Path = exe,
                Args = exe # drop 1 cmdline @
                  [''-p'', path_Join [''/'', path_Dir (FullName input)], Name input],
                Dir = tmpdir,
                Env = (if IsZero clampTime then None
                       else Some (Environ w @ [''PYTHONHASHSEED=0'',
                              ''SOURCE_DATE_EPOCH='' @ Sprintf_d (Unix clampTime)]))\<rparr> \<and>
           fs = (files s)(filepath_Join w [tmpdir, path_Base (FullName input)] \<mapsto>
                  \<lparr>st_content = inBytes, st_atime = Chtimes_set (ModTime input) (Now w),
                    st_mtime = Chtimes_set (ModTime input) (Now w)\<rparr>) \<and>
           evs = [EvWriteFile (filepath_Join w [tmpdir, path_Base (FullName input)]) inBytes 438,
                  EvChtimes (filepath_Join w [tmpdir, path_Base (FullName input)])
                    (ModTime input) (ModTime input),
                  EvRun c fs]"
  using assms
  by (auto simp: closure_body_def os_defs Let_def CommandContext_def
      split: sum.splits option.splits prod.splits outcome.splits if_splits)

lemma Chtimes_set_exact:
  assumes "\<not> IsZero t" "in_UnixNano_range t"
  shows "Chtimes_set t old = t"
proof -
  from assms(2) have r: "0 \<le> nsec t" "nsec t < 1000000000"
    "- (2 ^ 63) \<le> Unix t * 1000000000 + nsec t" "Unix t * 1000000000 + nsec t < 2 ^ 63"
    by (simp_all add: in_UnixNano_range_def)
  from r(3,4) have u: "UnixNano t = Unix t * 1000000000 + nsec t"
    by (simp add: UnixNano_def wrap64_def)
  from r(1,2) have "(Unix t * 1000000000 + nsec t) div 1000000000 = Unix t"
    and "(Unix t * 1000000000 + nsec t) mod 1000000000 = nsec t"
    by simp_all
  with assms(1) u show ?thesis
    by (simp add: Chtimes_set_def NsecToTimespec_def Unix_def)
qed

lemma ex_Chtimes_set: "Chtimes_set ex_mtime old = ex_mtime"
  by (rule Chtimes_set_exact)
     (simp_all add: IsZero_def in_UnixNano_range_def ex_mtime_def Unix_def unixToInternal_def)

lemma ex_paths:
  "path_Base ''pkg/mod.py'' = ''mod.py''"
  "path_Dir ''pkg/mod.py'' = ''pkg''"
  "path_Join [''/'', ''pkg''] = ''/pkg''"
  "path_Join [''/tmp/ocibuild-pycompile.1'', ''mod.py''] = ''/tmp/ocibuild-pycompile.1/mod.py''"
  "path_Join [''.'', ''mod.py''] = ''mod.py''"
  "path_Join [''.'', ''__pycache__''] = ''__pycache__''"
  "path_Join [''__pycache__'', ''mod.pyc''] = ''__pycache__/mod.pyc''"
  "path_Join [''pkg'', ''__pycache__''] = ''pkg/__pycache__''"
  "path_Join [''pkg'', ''__pycache__/mod.pyc''] = ''pkg/__pycache__/mod.pyc''"
  by (simp_all add: path_Base_def path_Dir_def path_Split_def path_Join_def path_Clean_def)

lemma ex_Sprintf: "Sprintf_d (Unix ex_clamp) = ''1''"
  by (simp add: Sprintf_d_def Unix_def unixToInternal_def ex_clamp_def formatBits.simps digit_def)

lemma ex_WalkDir: "WalkDir (Inr ex_tree) ''.'' (walkFn ex_input) Map.empty = (Return None, ex_vfs)"
  by (simp add: WalkDir_def ex_tree_def walkFn_def ex_input_def ex_paths HasSuffix_def ex_vfs_def Let_def)

lemma ex_world_simps:
  "MkdirTemp ex_world [] ''ocibuild-pycompile.'' = Inr ''/tmp/ocibuild-pycompile.1''"
  "RemoveAll ex_world p = None"
  by (simp_all add: ex_world_def)

lemma ex_closure:
  "fst (closure ex_exe ex_cmdline ex_world ex_clamp ex_input ex_state) =
     Return (Some ex_vfs, None)"
  "calls (snd (closure ex_exe ex_cmdline ex_world ex_clamp ex_input ex_state)) =
     [EvMkdirTemp [] ''ocibuild-pycompile.'',
      EvWriteFile ''/tmp/ocibuild-pycompile.1/mod.py'' ''print()'' 438,
      EvChtimes ''/tmp/ocibuild-pycompile.1/mod.py'' ex_mtime ex_mtime,
      EvRun ex_cmd ex_files,
      EvRemoveAll ''/tmp/ocibuild-pycompile.1'']"
proof -
  have body: "closure_body ex_world ex_exe ex_cmdline
      ex_clamp ex_input ''/tmp/ocibuild-pycompile.1'' s =
    (Return (Some ex_vfs, None),
     \<lparr>files = (files s)(''/tmp/ocibuild-pycompile.1/mod.py'' \<mapsto>
        \<lparr>st_content = ''print()'', st_atime = ex_mtime, st_mtime = ex_mtime\<rparr>),
      calls = calls s @ [EvWriteFile ''/tmp/ocibuild-pycompile.1/mod.py'' ''print()'' 438,
                EvChtimes ''/tmp/ocibuild-pycompile.1/mod.py'' ex_mtime ex_mtime,
                EvRun ex_cmd ((files s)(''/tmp/ocibuild-pycompile.1/mod.py'' \<mapsto>
        \<lparr>st_content = ''print()'', st_atime = ex_mtime, st_mtime = ex_mtime\<rparr>))]\<rparr>)" for s
    by (simp add: closure_body_def os_defs Let_def CommandContext_def ex_WalkDir ex_Sprintf
        ex_world_def ex_paths IsZero_def ex_cmd_def ex_input_def ex_clamp_def ex_cmdline_def
        ex_Chtimes_set
        ex_WalkDir [unfolded ex_input_def] ex_Sprintf [unfolded ex_clamp_def])
  show "fst (closure ex_exe ex_cmdline ex_world ex_clamp ex_input ex_state) =
     Return (Some ex_vfs, None)"
    by (simp add: closure_def body os_defs maybeSetErr_def ex_world_simps)
  show "calls (snd (closure ex_exe ex_cmdline ex_world ex_clamp ex_input ex_state)) =
     [EvMkdirTemp [] ''ocibuild-pycompile.'',
      EvWriteFile ''/tmp/ocibuild-pycompile.1/mod.py'' ''print()'' 438,
      EvChtimes ''/tmp/ocibuild-pycompile.1/mod.py'' ex_mtime ex_mtime,
      EvRun ex_cmd ex_files,
      EvRemoveAll ''/tmp/ocibuild-pycompile.1'']"
    by (simp add: closure_def body os_defs ex_files_def ex_state_def ex_world_simps)
qed

lemma RemoveAll_update_simps:
  "filepath_Join (w\<lparr>RemoveAll := r\<rparr>) = filepath_Join w"
  "Environ (w\<lparr>RemoveAll := r\<rparr>) = Environ w"
  "os_WriteFile (w\<lparr>RemoveAll := r\<rparr>) = os_WriteFile w"
  "os_Chtimes (w\<lparr>RemoveAll := r\<rparr>) = os_Chtimes w"
  "os_Run (w\<lparr>RemoveAll := r\<rparr>) = os_Run w"
  by (simp_all add: fun_eq_iff os_WriteFile_def os_Chtimes_def os_Run_def split: option.splits)

lemma closure_body_RemoveAll_update:
  "closure_body (w\<lparr>RemoveAll := r\<rparr>) exe cmdline clampTime input tmpdir s =
   closure_body w exe cmdline clampTime input tmpdir s"
  unfolding closure_body_def RemoveAll_update_simps by (rule refl)

lemma invocation_Run:
  assumes "EvRun c fs \<in> set (invocation_calls exe cmdline w clampTime input s)"
  shows "\<exists>tmpdir inReader inBytes.
           MkdirTemp w [] ''ocibuild-pycompile.'' = Inr tmpdir \<and>
           Open input = Inr inReader \<and> ReadAll inReader = Inr inBytes \<and> Close inReader = None \<and>
           WriteFile w (filepath_Join w [tmpdir, path_Base (FullName input)]) inBytes 438 = None \<and>
           Chtimes w (filepath_Join w [tmpdir, path_Base (FullName input)])
             (ModTime input) (ModTime input) = None \<and>
           c = \<lparr>Path = exe,
                Args = exe # drop 1 cmdline @
                  [''-p'', path_Join [''/'', path_Dir (FullName input)], Name input],
                Dir = tmpdir,
                Env = (if IsZero clampTime then None
                       else Some (Environ w @ [''PYTHONHASHSEED=0'',
                              ''SOURCE_DATE_EPOCH='' @ Sprintf_d (Unix clampTime)]))\<rparr> \<and>
           fs = (files s)(filepath_Join w [tmpdir, path_Base (FullName input)] \<mapsto>
                  \<lparr>st_content = inBytes, st_atime = Chtimes_set (ModTime input) (Now w),
                    st_mtime = Chtimes_set (ModTime input) (Now w)\<rparr>) \<and>
           invocation_calls exe cmdline w clampTime input s =
             [EvMkdirTemp [] ''ocibuild-pycompile.'',
              EvWriteFile (filepath_Join w [tmpdir, path_Base (FullName input)]) inBytes 438,
              EvChtimes (filepath_Join w [tmpdir, path_Base (FullName input)])
                (ModTime input) (ModTime input),
              EvRun c fs, EvRemoveAll tmpdir]"
proof (cases "MkdirTemp w [] ''ocibuild-pycompile.''")
  case (Inl e)
  with assms show ?thesis
    by (simp add: invocation_calls_def closure_Inl called_def)
next
  case (Inr tmpdir)
  let ?s1 = "called (EvMkdirTemp [] ''ocibuild-pycompile.'') s"
  from closure_calls_Inr [OF Inr, of exe cmdline clampTime input s]
  obtain evs where evs:
    "calls (snd (closure exe cmdline w clampTime input s)) =
       calls s @ EvMkdirTemp [] ''ocibuild-pycompile.'' # evs @ [EvRemoveAll tmpdir]"
    "calls (snd (closure_body w exe cmdline clampTime input tmpdir ?s1)) =
       calls s @ EvMkdirTemp [] ''ocibuild-pycompile.'' # evs"
    by blast
  from evs(1) have inv: "invocation_calls exe cmdline w clampTime input s =
      EvMkdirTemp [] ''ocibuild-pycompile.'' # evs @ [EvRemoveAll tmpdir]"
    by (simp add: invocation_calls_def)
  with assms have mem: "EvRun c fs \<in> set evs" by auto
  from evs(2) have "calls (snd (closure_body w exe cmdline clampTime input tmpdir ?s1)) =
       calls ?s1 @ evs"
    by (simp add: called_def)
  from closure_body_Run [OF this mem] Inr inv show ?thesis
    by (auto simp: called_def)
qed

lemma ex_invocation_calls:
  "invocation_calls ex_exe ex_cmdline ex_world ex_clamp ex_input ex_state =
     [EvMkdirTemp [] ''ocibuild-pycompile.'',
      EvWriteFile ''/tmp/ocibuild-pycompile.1/mod.py'' ''print()'' 438,
      EvChtimes ''/tmp/ocibuild-pycompile.1/mod.py'' ex_mtime ex_mtime,
      EvRun ex_cmd ex_files,
      EvRemoveAll ''/tmp/ocibuild-pycompile.1'']"
  by (simp add: invocation_calls_def ex_closure(2), simp add: ex_state_def)

lemma ex_ExternalCompiler:
  "ExternalCompiler ex_world ex_cmdline = Return (Some (closure ex_exe ex_cmdline), None)"
  by (simp add: ExternalCompiler_def ex_world_def ex_cmdline_def ex_exe_def)

lemma split_slash_not_Nil: "split_slash s \<noteq> []"
  by (induction s) (auto split: list.splits)

lemma split_slash_append:
  "split_slash (a @ CHR ''/'' # b) = split_slash a @ split_slash b"
  by (induction a) (auto split: list.splits simp: split_slash_not_Nil)

lemma split_slash_no_slash: "CHR ''/'' \<notin> set n \<Longrightarrow> split_slash n = [n]"
  by (induction n) auto

lemma join_slash_Cons: "ns \<noteq> [] \<Longrightarrow> join_slash (n # ns) = n @ CHR ''/'' # join_slash ns"
  by (cases ns) auto

lemma join_slash_snoc: "ns \<noteq> [] \<Longrightarrow> join_slash (ns @ [n]) = join_slash ns @ CHR ''/'' # n"
  by (induction ns rule: join_slash.induct) auto

lemma split_slash_join_slash:
  "ns \<noteq> [] \<Longrightarrow> \<forall>n \<in> set ns. CHR ''/'' \<notin> set n \<Longrightarrow> split_slash (join_slash ns) = ns"
  by (induction ns rule: join_slash.induct)
     (auto simp: split_slash_no_slash split_slash_append simp del: split_slash.simps)

lemma clean_elems_valid:
  "\<forall>n \<in> set ns. valid_name n \<Longrightarrow> clean_elems r out ns = out @ ns"
  by (induction ns arbitrary: out) (auto simp: valid_name_def)

lemma hd_no_slash: "e \<noteq> [] \<Longrightarrow> CHR ''/'' \<notin> set e \<Longrightarrow> hd e \<noteq> CHR ''/''"
  by (cases e) auto

lemma join_slash_valid_not_Nil:
  "ns \<noteq> [] \<Longrightarrow> \<forall>n \<in> set ns. valid_name n \<Longrightarrow> join_slash ns \<noteq> [] \<and> hd (join_slash ns) \<noteq> CHR ''/''"
  by (cases ns rule: join_slash.cases) (auto simp: valid_name_def hd_append dest: hd_no_slash)

lemma path_Clean_join_slash:
  assumes "ns \<noteq> []" "\<forall>n \<in> set ns. valid_name n"
  shows "path_Clean (join_slash ns) = join_slash ns"
proof -
  have "split_slash (join_slash ns) = ns"
    using assms by (intro split_slash_join_slash) (auto simp: valid_name_def)
  then show ?thesis
    using join_slash_valid_not_Nil [OF assms] assms(2)
    by (simp add: path_Clean_def clean_elems_valid)
qed

lemma path_Join_rel:
  assumes "\<forall>m \<in> set ns. valid_name m" "valid_name n"
  shows "path_Join [rel ns, n] = rel (ns @ [n])"
proof (cases "ns = []")
  case True
  have "split_slash (''.'' @ CHR ''/'' # n) = [''.'', n]"
    unfolding split_slash_append using assms(2) by (simp add: split_slash_no_slash valid_name_def)
  then show ?thesis
    using True assms(2)
    by (simp add: path_Join_def rel_def path_Clean_def valid_name_def)
next
  case False
  have "path_Join [rel ns, n] = path_Clean (join_slash (ns @ [n]))"
    using False assms join_slash_valid_not_Nil [of ns]
    by (simp add: path_Join_def rel_def join_slash_snoc valid_name_def)
  also have "\<dots> = join_slash (ns @ [n])"
    using assms by (intro path_Clean_join_slash) auto
  finally show ?thesis by (simp add: rel_def)
qed

lemma HasSuffix_iff: "HasSuffix s suf \<longleftrightarrow> (\<exists>pre. s = pre @ suf)"
proof
  assume "HasSuffix s suf"
  then have "s = take (length s - length suf) s @ suf"
    by (metis HasSuffix_def append_take_drop_id)
  then show "\<exists>pre. s = pre @ suf" ..
next
  assume "\<exists>pre. s = pre @ suf"
  then show "HasSuffix s suf" by (auto simp: HasSuffix_def)
qed

lemma HasSuffix_after_slash:
  assumes "CHR ''/'' \<notin> set suf"
  shows "HasSuffix (a @ CHR ''/'' # n) suf \<longleftrightarrow> HasSuffix n suf"
proof
  assume "HasSuffix (a @ CHR ''/'' # n) suf"
  then obtain pre where "a @ CHR ''/'' # n = pre @ suf"
    by (auto simp: HasSuffix_iff)
  then obtain us where "(a = pre @ us \<and> us @ CHR ''/'' # n = suf) \<or> (a @ us = pre \<and> CHR ''/'' # n = us @ suf)"
    by (auto simp: append_eq_append_conv2)
  with assms show "HasSuffix n suf"
    by (cases us) (auto simp: HasSuffix_iff)
next
  assume "HasSuffix n suf"
  then show "HasSuffix (a @ CHR ''/'' # n) suf"
    by (metis HasSuffix_iff append.assoc append_Cons)
qed

lemma HasSuffix_rel:
  "HasSuffix (rel (ns @ [n])) ''.pyc'' \<longleftrightarrow> HasSuffix n ''.pyc''"
  by (cases "ns = []") (simp_all add: rel_def join_slash_snoc HasSuffix_after_slash)

lemma rel_snoc_not_dot:
  "valid_name n \<Longrightarrow> rel (ns @ [n]) \<noteq> ''.''"
  by (cases "ns = []") (auto simp: rel_def join_slash_snoc valid_name_def append_eq_Cons_conv)

lemma walkFn_error: "walkFn input p d (Some e) vfs = (Some (Err e), vfs)"
  by (simp add: walkFn_def)

lemma walkFn_root: "walkFn input ''.'' d None vfs = (None, vfs)"
  by (simp add: walkFn_def)

lemma walkFn_entry:
  "p \<noteq> ''.'' \<Longrightarrow>
   walkFn input p (Some d) None vfs =
     (if \<not> HasSuffix p ''.pyc'' \<and> \<not> d_IsDir d then (None, vfs)
      else case d_Info d of
             Inl err \<Rightarrow> (Some (Err err), vfs)
           | Inr info \<Rightarrow>
               (case read_content d of
                  Inl err \<Rightarrow> (Some (Err err), vfs)
                | Inr content \<Rightarrow>
                    (None, vfs(path_Join [path_Dir (FullName input), p] \<mapsto>
                       \<lparr>FileInfo = info,
                        MFullName = path_Join [path_Dir (FullName input), p],
                        MContent = content\<rparr>))))"
  by (simp add: walkFn_def Let_def split: sum.splits)

lemma wf_node_valid_name: "wf_node d \<Longrightarrow> valid_name (d_Name d)"
  by (cases d) auto

lemma rel_snoc: "rel (ns @ [n]) = join_slash (ns @ [n])"
  by (simp add: rel_def)

lemma walkDir_refines:
  "wf_node d \<Longrightarrow> \<forall>m \<in> set ns. valid_name m \<Longrightarrow>
     agrees (walkDir (walkFn input) (rel (ns @ [d_Name d])) d vfs) (collect_entry input ns d vfs)"
  "\<forall>d \<in> set ds. wf_node d \<Longrightarrow> \<forall>m \<in> set ns. valid_name m \<Longrightarrow>
     agrees (walkDir_range (walkFn input) (rel ns) ds vfs) (collect_entries input ns ds vfs)"
proof (induction input ns d vfs and input ns ds vfs rule: collect_entry_collect_entries.induct)
  case (1 input ns n i c vfs)
  then show ?case
    by (auto simp: agrees_def walkFn_error walkFn_entry rel_snoc_not_dot HasSuffix_rel virtual_name_def
        rel_snoc [symmetric] Let_def split: sum.splits)
next
  case (2 input ns n i ds r vfs)
  show ?case
  proof (cases i)
    case (Inl err)
    with 2 show ?thesis
      by (simp add: agrees_def walkFn_error walkFn_entry rel_snoc_not_dot)
  next
    case (Inr info)
    show ?thesis
    proof (cases r)
      case (Some err)
      with Inr 2 show ?thesis
        by (simp add: agrees_def walkFn_error walkFn_entry rel_snoc_not_dot Let_def)
    next
      case None
      let ?k = "virtual_name input (ns @ [n])"
      let ?v = "vfs(?k \<mapsto> \<lparr>FileInfo = info, MFullName = ?k, MContent = None\<rparr>)"
      have IH: "agrees (walkDir_range (walkFn input) (rel (ns @ [n])) ds ?v)
                  (collect_entries input (ns @ [n]) ds ?v)"
        using 2 Inr None by (simp add: fun_upd_def)
      have step: "walkDir (walkFn input) (rel (ns @ [n])) (Directory n i ds r) vfs =
                  walkDir_range (walkFn input) (rel (ns @ [n])) ds ?v"
        using 2(2) Inr None
        by (simp add: walkFn_entry rel_snoc_not_dot virtual_name_def rel_snoc [symmetric])
      from IH show ?thesis
        by (simp add: step [unfolded Inr None] Inr None del: walkDir.simps)
    qed
  qed
next
  case (3 input ns vfs)
  then show ?case by (simp add: agrees_def)
next
  case (4 input ns d ds vfs)
  have p: "path_Join [rel ns, d_Name d] = rel (ns @ [d_Name d])"
    using 4(3,4) by (intro path_Join_rel) (auto simp: wf_node_valid_name)
  from 4 show ?case
    by (auto simp: agrees_def p split: sum.splits prod.splits)
qed

lemma WalkDir_refines:
  assumes "wf_workspace fsys"
  shows "case collect_workspace input fsys of
           Inl e \<Rightarrow> fst (WalkDir fsys ''.'' (walkFn input) Map.empty) = Return (Some e)
         | Inr vfs \<Rightarrow> WalkDir fsys ''.'' (walkFn input) Map.empty = (Return None, vfs)"
proof (cases fsys)
  case (Inl err)
  then show ?thesis
    by (simp add: collect_workspace_def WalkDir_def walkFn_error)
next
  case (Inr d)
  show ?thesis
  proof (cases d)
    case (File n i c)
    with Inr show ?thesis
      by (simp add: collect_workspace_def WalkDir_def walkFn_root)
  next
    case (Directory n i ds r)
    show ?thesis
    proof (cases r)
      case (Some err)
      with Inr Directory show ?thesis
        by (simp add: collect_workspace_def WalkDir_def walkFn_root walkFn_error)
    next
      case None
      from assms Inr Directory have "\<forall>d \<in> set ds. wf_node d"
        by (simp add: wf_workspace_def)
      from walkDir_refines(2) [OF this, of "[]" input Map.empty]
      have "agrees (walkDir_range (walkFn input) ''.'' ds Map.empty)
              (collect_entries input [] ds Map.empty)"
        by (simp add: rel_def)
      with Inr Directory None show ?thesis
        by (auto simp: collect_workspace_def WalkDir_def walkFn_root agrees_def
            split: sum.splits prod.splits)
    qed
  qed
qed

lemma collect_dom:
  "collect_entry input ns d vfs = Inr vfs' \<Longrightarrow>
     dom vfs' = dom vfs \<union> virtual_name input ` set (selected ns d)"
  "collect_entries input ns ds vfs = Inr vfs' \<Longrightarrow>
     dom vfs' = dom vfs \<union> virtual_name input ` set (selected_range ns ds)"
proof (induction input ns d vfs and input ns ds vfs arbitrary: vfs' and vfs'
    rule: collect_entry_collect_entries.induct)
  case (1 input ns n i c vfs)
  then show ?case by (auto split: if_splits sum.splits)
next
  case (2 input ns n i ds r vfs)
  from 2(2) obtain info where i: "i = Inr info" and r: "r = None"
    and c: "collect_entries input (ns @ [n]) ds
              (vfs(virtual_name input (ns @ [n]) \<mapsto>
                 \<lparr>FileInfo = info, MFullName = virtual_name input (ns @ [n]),
                  MContent = None\<rparr>)) = Inr vfs'"
    by (auto split: sum.splits option.splits)
  from 2(1) [OF i r c] show ?case by auto
next
  case (3 input ns vfs)
  then show ?case by simp
next
  case (4 input ns d ds vfs)
  from 4(3) obtain vfs1 where a: "collect_entry input ns d vfs = Inr vfs1"
    and b: "collect_entries input ns ds vfs1 = Inr vfs'"
    by (auto split: sum.splits)
  from 4(1) [OF a] 4(2) [OF a b] show ?case by auto
qed

lemma collect_keyed:
  "collect_entry input ns d vfs = Inr vfs' \<Longrightarrow> keyed vfs \<Longrightarrow> keyed vfs'"
  "collect_entries input ns ds vfs = Inr vfs' \<Longrightarrow> keyed vfs \<Longrightarrow> keyed vfs'"
proof (induction input ns d vfs and input ns ds vfs arbitrary: vfs' and vfs'
    rule: collect_entry_collect_entries.induct)
  case (1 input ns n i c vfs)
  then show ?case by (auto simp: keyed_def split: if_splits sum.splits)
next
  case (2 input ns n i ds r vfs)
  from 2(2) obtain info where i: "i = Inr info" and r: "r = None"
    and c: "collect_entries input (ns @ [n]) ds
              (vfs(virtual_name input (ns @ [n]) \<mapsto>
                 \<lparr>FileInfo = info, MFullName = virtual_name input (ns @ [n]),
                  MContent = None\<rparr>)) = Inr vfs'"
    by (auto split: sum.splits option.splits)
  have k: "keyed (vfs(virtual_name input (ns @ [n]) \<mapsto>
           \<lparr>FileInfo = info, MFullName = virtual_name input (ns @ [n]), MContent = None\<rparr>))"
    using 2(3) by (simp add: keyed_def)
  from 2(1) [OF i r c k] show ?case .
next
  case (3 input ns vfs)
  then show ?case by simp
next
  case (4 input ns d ds vfs)
  from 4(3) obtain vfs1 where a: "collect_entry input ns d vfs = Inr vfs1"
    and b: "collect_entries input ns ds vfs1 = Inr vfs'"
    by (auto split: sum.splits)
  from 4(2) [OF a b 4(1) [OF a 4(4)]] show ?case .
qed

lemma collect_workspace_keys:
  assumes "collect_workspace input fsys = Inr vfs"
  shows "dom vfs = virtual_name input ` set (selected_workspace fsys)" and "keyed vfs"
proof -
  show "dom vfs = virtual_name input ` set (selected_workspace fsys)"
    using assms collect_dom(2) [of input "[]" _ Map.empty vfs]
    by (auto simp: collect_workspace_def selected_workspace_def
        split: sum.splits node.splits option.splits)
  have "keyed Map.empty" by (simp add: keyed_def)
  with assms collect_keyed(2) [of input "[]" _ Map.empty vfs] show "keyed vfs"
    by (auto simp: collect_workspace_def split: sum.splits node.splits option.splits)
qed

lemma closure_body_eval:
  assumes "Open input = Inr inReader" and "ReadAll inReader = Inr inBytes"
    and "Close inReader = None"
    and "WriteFile w (filepath_Join w [tmpdir, path_Base (FullName input)]) inBytes 438 = None"
    and "Chtimes w (filepath_Join w [tmpdir, path_Base (FullName input)])
           (ModTime input) (ModTime input) = None"
  shows "fst (closure_body w exe cmdline clampTime input tmpdir s) =
           (case Run w (command exe cmdline w clampTime input tmpdir)
                   (staged w input tmpdir inBytes (files s)) of
              (Some e, dirFS) \<Rightarrow> Return (None, Some e)
            | (None, dirFS) \<Rightarrow>
                (case WalkDir dirFS ''.'' (walkFn input) Map.empty of
                   (Return None, vfs) \<Rightarrow> Return (Some vfs, None)
                 | (Return (Some e), vfs) \<Rightarrow> Return (None, Some e)
                 | (Panic msg, vfs) \<Rightarrow> Panic msg))"
    and "calls (snd (closure_body w exe cmdline clampTime input tmpdir s)) =
           calls s @
           [EvWriteFile (filepath_Join w [tmpdir, path_Base (FullName input)]) inBytes 438,
            EvChtimes (filepath_Join w [tmpdir, path_Base (FullName input)])
              (ModTime input) (ModTime input),
            EvRun (command exe cmdline w clampTime input tmpdir)
              (staged w input tmpdir inBytes (files s))]"
  by (simp_all add: closure_body_def os_defs Let_def assms command_def staged_def CommandContext_def
      split: option.splits outcome.splits prod.splits)

lemma closure_body_after_Run:
  assumes "calls (snd (closure_body w exe cmdline clampTime input tmpdir s)) = calls s @ evs"
    and "EvRun c fs \<in> set evs"
  shows "fst (closure_body w exe cmdline clampTime input tmpdir s) =
           (case Run w c fs of
              (Some e, dirFS) \<Rightarrow> Return (None, Some e)
            | (None, dirFS) \<Rightarrow>
                (case WalkDir dirFS ''.'' (walkFn input) Map.empty of
                   (Return None, vfs) \<Rightarrow> Return (Some vfs, None)
                 | (Return (Some e), vfs) \<Rightarrow> Return (None, Some e)
                 | (Panic msg, vfs) \<Rightarrow> Panic msg))"
proof -
  from closure_body_Run [OF assms] obtain inReader inBytes where a:
    "Open input = Inr inReader" "ReadAll inReader = Inr inBytes" "Close inReader = None"
    "WriteFile w (filepath_Join w [tmpdir, path_Base (FullName input)]) inBytes 438 = None"
    "Chtimes w (filepath_Join w [tmpdir, path_Base (FullName input)])
           (ModTime input) (ModTime input) = None"
    and c: "c = command exe cmdline w clampTime input tmpdir"
    and fs: "fs = staged w input tmpdir inBytes (files s)"
    unfolding command_def staged_def by blast
  from closure_body_eval(1) [OF a] show ?thesis
    unfolding c fs .
qed

lemma closure_body_no_Run:
  assumes "calls (snd (closure_body w exe cmdline clampTime input tmpdir s)) = calls s @ evs"
    and "\<forall>c fs. EvRun c fs \<notin> set evs"
  shows "\<exists>e. fst (closure_body w exe cmdline clampTime input tmpdir s) = Return (None, Some e)"
  using assms
  by (auto simp: closure_body_def os_defs Let_def CommandContext_def
      split: sum.splits option.splits prod.splits outcome.splits if_splits)

lemma closure_after_Run:
  assumes "EvRun c fs \<in> set (invocation_calls exe cmdline w clampTime input s)"
  shows "fst (closure exe cmdline w clampTime input s) =
           (case Run w c fs of
              (Some e, dirFS) \<Rightarrow> Return (None, Some e)
            | (None, dirFS) \<Rightarrow>
                (case WalkDir dirFS ''.'' (walkFn input) Map.empty of
                   (Return None, vfs) \<Rightarrow> Return (Some vfs, RemoveAll w (Dir c))
                 | (Return (Some e), vfs) \<Rightarrow> Return (None, Some e)
                 | (Panic msg, vfs) \<Rightarrow> Panic msg))"
proof -
  from invocation_Run [OF assms] obtain tmpdir where
    t: "MkdirTemp w [] ''ocibuild-pycompile.'' = Inr tmpdir" and d: "Dir c = tmpdir"
    by auto
  let ?s1 = "called (EvMkdirTemp [] ''ocibuild-pycompile.'') s"
  from closure_calls_Inr [OF t, of exe cmdline clampTime input s]
  obtain evs where evs:
    "calls (snd (closure exe cmdline w clampTime input s)) =
       calls s @ EvMkdirTemp [] ''ocibuild-pycompile.'' # evs @ [EvRemoveAll tmpdir]"
    "calls (snd (closure_body w exe cmdline clampTime input tmpdir ?s1)) =
       calls s @ EvMkdirTemp [] ''ocibuild-pycompile.'' # evs"
    by blast
  from evs(1) assms have mem: "EvRun c fs \<in> set evs"
    by (auto simp: invocation_calls_def)
  from evs(2) have "calls (snd (closure_body w exe cmdline clampTime input tmpdir ?s1)) =
       calls ?s1 @ evs"
    by (simp add: called_def)
  from closure_body_after_Run [OF this mem] show ?thesis
    by (auto simp: closure_Inr [OF t] d maybeSetErr_def
        split: prod.splits option.splits outcome.splits)
qed

lemma closure_no_Run:
  assumes "\<forall>c fs. EvRun c fs \<notin> set (invocation_calls exe cmdline w clampTime input s)"
  shows "\<exists>e. fst (closure exe cmdline w clampTime input s) = Return (None, Some e)"
proof (cases "MkdirTemp w [] ''ocibuild-pycompile.''")
  case (Inl e)
  then show ?thesis by (simp add: closure_Inl)
next
  case (Inr tmpdir)
  let ?s1 = "called (EvMkdirTemp [] ''ocibuild-pycompile.'') s"
  from closure_calls_Inr [OF Inr, of exe cmdline clampTime input s]
  obtain evs where evs:
    "calls (snd (closure exe cmdline w clampTime input s)) =
       calls s @ EvMkdirTemp [] ''ocibuild-pycompile.'' # evs @ [EvRemoveAll tmpdir]"
    "calls (snd (closure_body w exe cmdline clampTime input tmpdir ?s1)) =
       calls s @ EvMkdirTemp [] ''ocibuild-pycompile.'' # evs"
    by blast
  from evs(1) assms have mem: "\<forall>c fs. EvRun c fs \<notin> set evs"
    by (auto simp: invocation_calls_def)
  from evs(2) have "calls (snd (closure_body w exe cmdline clampTime input tmpdir ?s1)) =
       calls ?s1 @ evs"
    by (simp add: called_def)
  from closure_body_no_Run [OF this mem] show ?thesis
    by (auto simp: closure_Inr [OF Inr] maybeSetErr_def split: prod.splits)
qed

lemma invocation_reaches_Run:
  assumes "MkdirTemp w [] ''ocibuild-pycompile.'' = Inr tmpdir"
    and "Open input = Inr inReader" and "ReadAll inReader = Inr inBytes"
    and "Close inReader = None"
    and "WriteFile w (filepath_Join w [tmpdir, path_Base (FullName input)]) inBytes 438 = None"
    and "Chtimes w (filepath_Join w [tmpdir, path_Base (FullName input)])
           (ModTime input) (ModTime input) = None"
  shows "EvRun (command exe cmdline w clampTime input tmpdir)
           (staged w input tmpdir inBytes (files s))
         \<in> set (invocation_calls exe cmdline w clampTime input s)"
proof -
  let ?s1 = "called (EvMkdirTemp [] ''ocibuild-pycompile.'') s"
  from closure_body_eval(2) [OF assms(2-6), of exe cmdline clampTime ?s1]
  have "EvRun (command exe cmdline w clampTime input tmpdir)
          (staged w input tmpdir inBytes (files s))
        \<in> set (calls (snd (closure_body w exe cmdline clampTime input tmpdir ?s1)))"
    by (simp add: called_def)
  moreover have "calls (snd (closure exe cmdline w clampTime input s)) =
          calls (snd (closure_body w exe cmdline clampTime input tmpdir ?s1)) @ [EvRemoveAll tmpdir]"
    by (simp add: closure_Inr [OF assms(1)] calls_os_RemoveAll split: prod.splits)
  moreover from closure_body_eval(2) [OF assms(2-6), of exe cmdline clampTime ?s1]
  have "take (length (calls s)) (calls (snd (closure_body w exe cmdline clampTime input tmpdir ?s1))) = calls s"
    by (simp add: called_def)
  ultimately show ?thesis
    by (auto simp: invocation_calls_def closure_body_eval(2) [OF assms(2-6)] called_def)
qed

lemma ex_wf: "wf_workspace (Inr ex_tree)" "wf_workspace (Inr ex_tree_unreadable)"
  by (simp_all add: wf_workspace_def ex_tree_def ex_tree_unreadable_def valid_name_def)

lemma ex_collect: "collect_workspace ex_input (Inr ex_tree) = Inr ex_vfs"
  by (simp add: collect_workspace_def ex_tree_def HasSuffix_def virtual_name_def ex_input_def
      ex_paths ex_vfs_def)

lemma ex_collect_unreadable:
  "collect_workspace ex_input (Inr ex_tree_unreadable) = Inl (Error ''read: input/output error'')"
  by (simp add: collect_workspace_def ex_tree_unreadable_def HasSuffix_def)

lemma ex_selected:
  "selected_workspace (Inr ex_tree) = [[''__pycache__''], [''__pycache__'', ''mod.pyc'']]"
  by (simp add: selected_workspace_def ex_tree_def HasSuffix_def)

lemma join_slash_append:
  "xs \<noteq> [] \<Longrightarrow> ys \<noteq> [] \<Longrightarrow> join_slash (xs @ ys) = join_slash xs @ CHR ''/'' # join_slash ys"
  by (induction xs rule: join_slash.induct) (auto simp: join_slash_Cons)

lemma path_Join_join_slash:
  assumes "dirs \<noteq> []" "\<forall>n \<in> set dirs. valid_name n" "ns \<noteq> []" "\<forall>n \<in> set ns. valid_name n"
  shows "path_Join [join_slash dirs, join_slash ns] = join_slash (dirs @ ns)"
proof -
  have "path_Join [join_slash dirs, join_slash ns] = path_Clean (join_slash (dirs @ ns))"
    using join_slash_valid_not_Nil [OF assms(1,2)] join_slash_valid_not_Nil [OF assms(3,4)] assms(1,3)
    by (simp add: path_Join_def join_slash_append)
  also have "\<dots> = join_slash (dirs @ ns)"
    using assms by (intro path_Clean_join_slash) auto
  finally show ?thesis .
qed

lemma selected_valid:
  "wf_node d \<Longrightarrow> \<forall>m \<in> set ns. valid_name m \<Longrightarrow>
     \<forall>p \<in> set (selected ns d). p \<noteq> [] \<and> (\<forall>m \<in> set p. valid_name m)"
  "\<forall>d \<in> set ds. wf_node d \<Longrightarrow> \<forall>m \<in> set ns. valid_name m \<Longrightarrow>
     \<forall>p \<in> set (selected_range ns ds). p \<noteq> [] \<and> (\<forall>m \<in> set p. valid_name m)"
proof (induction ns d and ns ds rule: selected_selected_range.induct)
  case (1 ns n i c)
  then show ?case by simp
next
  case (2 ns n i ds r)
  then have a: "\<forall>d \<in> set ds. wf_node d" and b: "\<forall>m \<in> set (ns @ [n]). valid_name m"
    by simp_all
  from 2(1) [OF a b] b show ?case by simp
next
  case (3 ns)
  show ?case by simp
next
  case (4 ns d ds)
  from 4(3) have a: "wf_node d" and b: "\<forall>d \<in> set ds. wf_node d"
    by simp_all
  from 4(1) [OF a 4(4)] 4(2) [OF b 4(4)] show ?case
    by (simp add: ball_Un)
qed

lemma selected_workspace_valid:
  "wf_workspace fsys \<Longrightarrow> p \<in> set (selected_workspace fsys) \<Longrightarrow>
     p \<noteq> [] \<and> (\<forall>m \<in> set p. valid_name m)"
  using selected_valid(2) [of _ "[]"]
  by (auto simp: wf_workspace_def selected_workspace_def split: sum.splits node.splits)

lemma closure_collects:
  assumes "EvRun c fs \<in> set (invocation_calls exe cmdline w clampTime input s)"
    and "Run w c fs = (None, dirFS)" and "wf_workspace dirFS"
  shows "fst (closure exe cmdline w clampTime input s) =
           (case collect_workspace input dirFS of
              Inl e \<Rightarrow> Return (None, Some e)
            | Inr vfs \<Rightarrow> Return (Some vfs, RemoveAll w (Dir c)))"
  using closure_after_Run [OF assms(1)] WalkDir_refines [OF assms(3), of input] assms(2)
  by (auto split: sum.splits prod.splits)

lemma ex_reaches_Run:
  assumes "MkdirTemp w = MkdirTemp ex_world" "WriteFile w = WriteFile ex_world"
    and "Chtimes w = Chtimes ex_world" "filepath_Join w = path_Join"
    and "Environ w = Environ ex_world"
  shows "EvRun ex_cmd ex_files \<in> set (invocation_calls ex_exe ex_cmdline w ex_clamp ex_input ex_state)"
proof -
  have c: "command ex_exe ex_cmdline w ex_clamp ex_input ''/tmp/ocibuild-pycompile.1'' = ex_cmd"
    by (simp add: command_def ex_cmd_def ex_cmdline_def assms ex_Sprintf,
        simp add: ex_input_def ex_paths ex_world_def IsZero_def ex_clamp_def)
  have f: "staged w ex_input ''/tmp/ocibuild-pycompile.1'' ''print()'' (files ex_state) = ex_files"
    by (simp add: staged_def ex_files_def assms ex_input_def ex_paths ex_state_def ex_Chtimes_set)
  have "EvRun (command ex_exe ex_cmdline w ex_clamp ex_input ''/tmp/ocibuild-pycompile.1'')
          (staged w ex_input ''/tmp/ocibuild-pycompile.1'' ''print()'' (files ex_state))
        \<in> set (invocation_calls ex_exe ex_cmdline w ex_clamp ex_input ex_state)"
    by (rule invocation_reaches_Run [where inReader = "\<lparr>ReadAll = Inr ''print()'', Close = None\<rparr>"])
       (simp_all add: assms ex_world_def ex_input_def)
  then show ?thesis by (simp only: c f)
qed

















lemma stamp_simps [simp]:
  "d_Name (stamp t d) = d_Name d"
  "d_IsDir (stamp t d) = d_IsDir d"
  "d_Info (stamp t d) = map_sum id (set_ModTime t) (d_Info d)"
  "read_content (stamp t d) = read_content d"
  by (cases d; simp)+















section \<open>The claims\<close>

text \<open>
  C10. \<^verbatim>\<open>ExternalCompiler\<close> reads \<^verbatim>\<open>cmdline[0]\<close> before anything else. The read is safe
  exactly when \<open>cmdline\<close> is not empty: on the empty list the call panics with an index
  out of range and returns no error value, and on any other list it does not panic.
\<close>

theorem ExternalCompiler_panics_iff_no_cmdline:
  "ExternalCompiler w [] = Panic ''index out of range [0] with length 0'' \<and>
   ((\<exists>msg. ExternalCompiler w cmdline = Panic msg) \<longleftrightarrow> cmdline = [])"
  by (auto simp: ExternalCompiler_def split: list.splits sum.splits)

text \<open>
  C1. First error wins. Take any call of the closure and the same call in a world where
  the removal of the workspace succeeds. If there the call fails with \<open>E\<close>, a phase before
  the removal has failed with \<open>E\<close>, and the call returns \<open>E\<close> whatever the removal does. If
  there the call returns no error, no earlier phase has failed, and the call returns what
  \<^verbatim>\<open>os.RemoveAll\<close> returns. When \<^verbatim>\<open>os.MkdirTemp\<close> itself fails, its error is returned and
  nothing is removed.
\<close>

theorem first_error_wins:
  assumes "fst (closure exe cmdline (w\<lparr>RemoveAll := (\<lambda>p. None)\<rparr>) clampTime input s) =
             Return (compiled, err)"
  shows "fst (closure exe cmdline w clampTime input s) =
           Return (compiled,
             case MkdirTemp w [] ''ocibuild-pycompile.'' of
               Inl e \<Rightarrow> Some e
             | Inr tmpdir \<Rightarrow> (case err of Some E \<Rightarrow> Some E | None \<Rightarrow> RemoveAll w tmpdir))"
proof (cases "MkdirTemp w [] ''ocibuild-pycompile.''")
  case (Inl e)
  with assms show ?thesis
    by (simp add: closure_def os_MkdirTemp_def)
next
  case (Inr tmpdir)
  then have "MkdirTemp (w\<lparr>RemoveAll := (\<lambda>p. None)\<rparr>) [] ''ocibuild-pycompile.'' = Inr tmpdir"
    by simp
  from closure_Inr [OF this, of exe cmdline clampTime input s] assms
  have "fst (closure_body w exe cmdline clampTime input tmpdir
          (called (EvMkdirTemp [] ''ocibuild-pycompile.'') s)) = Return (compiled, err)"
    by (auto simp: closure_body_RemoveAll_update maybeSetErr_def split: prod.splits outcome.splits)
  with Inr show ?thesis
    by (auto simp: closure_Inr maybeSetErr_def split: prod.splits option.splits)
qed

theorem first_error_wins_witness:
  "fst (closure ex_exe ex_cmdline
         (ex_world_failing\<lparr>RemoveAll := (\<lambda>p. None)\<rparr>) ex_clamp ex_input ex_state) =
     Return (None, Some (Error ''exit status 1'')) \<and>
   RemoveAll ex_world_failing ''/tmp/ocibuild-pycompile.1'' = Some (Error ''unlinkat: permission denied'') \<and>
   fst (closure ex_exe ex_cmdline
         ex_world_failing ex_clamp ex_input ex_state) =
     Return (None, Some (Error ''exit status 1''))"
proof -
  have h: "fst (closure ex_exe ex_cmdline
         (ex_world_failing\<lparr>RemoveAll := (\<lambda>p. None)\<rparr>) ex_clamp ex_input ex_state) =
     Return (None, Some (Error ''exit status 1''))"
    by (simp add: closure_def closure_body_def os_defs Let_def ex_world_failing_def ex_world_def
        ex_input_def maybeSetErr_def)
  from first_error_wins [OF h] h show ?thesis
    by (simp add: ex_world_failing_def ex_world_def)
qed

text \<open>
  C4. Once \<^verbatim>\<open>os.MkdirTemp\<close> has returned the workspace, every call of the closure ends
  with \<^verbatim>\<open>os.RemoveAll\<close> on that directory, whatever happened in between: the calls of the
  invocation are the creation, then calls that remove nothing, then the removal of the
  workspace. This holds for every world, so for every exit path (a failing copy of the
  input, a failing compiler, a failing collection, a panic, success). When the removal
  succeeds, no file written at or below the workspace is left.
\<close>

theorem workspace_removal_on_every_exit:
  assumes "MkdirTemp w [] ''ocibuild-pycompile.'' = Inr tmpdir"
  shows "(\<exists>evs. invocation_calls exe cmdline w clampTime input s =
                 EvMkdirTemp [] ''ocibuild-pycompile.'' # evs @ [EvRemoveAll tmpdir] \<and>
               (\<forall>ev \<in> set evs. \<forall>p. ev \<noteq> EvRemoveAll p)) \<and>
         (RemoveAll w tmpdir = None \<longrightarrow>
            (\<forall>q. below tmpdir q \<longrightarrow> files (snd (closure exe cmdline w clampTime input s)) q = None))"
proof
  from closure_calls_Inr [OF assms, of exe cmdline clampTime input s]
  show "\<exists>evs. invocation_calls exe cmdline w clampTime input s =
                 EvMkdirTemp [] ''ocibuild-pycompile.'' # evs @ [EvRemoveAll tmpdir] \<and>
               (\<forall>ev \<in> set evs. \<forall>p. ev \<noteq> EvRemoveAll p)"
    by (auto simp: invocation_calls_def)
  show "RemoveAll w tmpdir = None \<longrightarrow>
            (\<forall>q. below tmpdir q \<longrightarrow> files (snd (closure exe cmdline w clampTime input s)) q = None)"
    by (simp add: closure_Inr [OF assms] os_RemoveAll_def called_def split: prod.splits)
qed

theorem workspace_removal_on_every_exit_witness:
  "MkdirTemp ex_world_failing [] ''ocibuild-pycompile.'' = Inr ''/tmp/ocibuild-pycompile.1'' \<and>
   (\<exists>evs. invocation_calls ex_exe ex_cmdline ex_world_failing ex_clamp ex_input ex_state =
            EvMkdirTemp [] ''ocibuild-pycompile.'' # evs @ [EvRemoveAll ''/tmp/ocibuild-pycompile.1''] \<and>
          (\<forall>ev \<in> set evs. \<forall>p. ev \<noteq> EvRemoveAll p))"
proof -
  have h: "MkdirTemp ex_world_failing [] ''ocibuild-pycompile.'' = Inr ''/tmp/ocibuild-pycompile.1''"
    by (simp add: ex_world_failing_def ex_world_def)
  from workspace_removal_on_every_exit [OF h] h show ?thesis
    by blast
qed

text \<open>
  C8. The compiler that \<^verbatim>\<open>ExternalCompiler\<close> returns for \<open>cmdline\<close> starts the external
  process with the resolved program, the remaining arguments of \<open>cmdline\<close>, the flag
  \<^verbatim>\<open>-p\<close> with the virtual directory of the source joined under \<^verbatim>\<open>/\<close>, and the base name
  \<^verbatim>\<open>in.Name()\<close> of the source; the working directory of the process is the workspace that
  \<^verbatim>\<open>os.MkdirTemp\<close> returned.
\<close>

theorem external_command_line:
  assumes "ExternalCompiler w0 cmdline = Return (Some compiler, None)"
    and "EvRun c fs \<in> set (drop (length (calls s)) (calls (snd (compiler w clampTime input s))))"
  shows "\<exists>exe0 exe.
           LookPath w0 (hd cmdline) = Inr exe0 \<and> filepath_Abs w0 exe0 = Inr exe \<and>
           Path c = exe \<and>
           Args c = exe # tl cmdline @
                      [''-p'', path_Join [''/'', path_Dir (FullName input)], Name input] \<and>
           MkdirTemp w [] ''ocibuild-pycompile.'' = Inr (Dir c)"
proof -
  from assms(1) obtain c0 rest exe0 exe where
    c: "cmdline = c0 # rest" "LookPath w0 c0 = Inr exe0" "filepath_Abs w0 exe0 = Inr exe"
       "compiler = closure exe cmdline"
    by (auto simp: ExternalCompiler_def split: list.splits sum.splits)
  from assms(2) c(4) have "EvRun c fs \<in> set (invocation_calls exe cmdline w clampTime input s)"
    by (simp add: invocation_calls_def)
  from invocation_Run [OF this] c show ?thesis
    by (auto simp: drop_Suc)
qed

theorem external_command_line_witness:
  "ExternalCompiler ex_world ex_cmdline = Return (Some (closure ex_exe ex_cmdline), None) \<and>
   EvRun ex_cmd ex_files \<in> set (drop (length (calls ex_state))
      (calls (snd (closure ex_exe ex_cmdline ex_world ex_clamp ex_input ex_state)))) \<and>
   Args ex_cmd = ex_exe # tl ex_cmdline @ [''-p'', ''/pkg'', ''mod.py''] \<and>
   MkdirTemp ex_world [] ''ocibuild-pycompile.'' = Inr (Dir ex_cmd)"
proof -
  have h: "EvRun ex_cmd ex_files \<in> set (drop (length (calls ex_state))
      (calls (snd (closure ex_exe ex_cmdline ex_world ex_clamp ex_input ex_state))))"
    using ex_invocation_calls by (simp add: invocation_calls_def)
  from external_command_line [OF ex_ExternalCompiler h] h ex_ExternalCompiler show ?thesis
    by (auto simp: ex_cmd_def ex_cmdline_def)
qed

text \<open>
  C2, as stated: with a clamp time that is not zero the environment of the process is the
  inherited one followed by \<^verbatim>\<open>HASHSEED=0\<close> and \<^verbatim>\<open>SOURCE_DATE_EPOCH\<close>. It is not: the
  variable the program sets is \<^verbatim>\<open>PYTHONHASHSEED\<close>.
\<close>

theorem hash_seed_variable_counterexample:
  "EvRun ex_cmd ex_files \<in> set (invocation_calls ex_exe ex_cmdline ex_world ex_clamp ex_input ex_state) \<and>
   \<not> IsZero ex_clamp \<and>
   Env ex_cmd \<noteq> Some (Environ ex_world @
                   [''HASHSEED=0'', ''SOURCE_DATE_EPOCH='' @ Sprintf_d (Unix ex_clamp)])"
proof -
  have "EvRun ex_cmd ex_files \<in> set (invocation_calls ex_exe ex_cmdline ex_world ex_clamp ex_input ex_state)"
    by (simp add: ex_invocation_calls)
  moreover have "\<not> IsZero ex_clamp"
    by (simp add: IsZero_def ex_clamp_def)
  moreover have "Env ex_cmd \<noteq> Some (Environ ex_world @
                   [''HASHSEED=0'', ''SOURCE_DATE_EPOCH='' @ Sprintf_d (Unix ex_clamp)])"
    by (simp add: ex_cmd_def ex_world_def)
  ultimately show ?thesis by blast
qed

text \<open>
  C2, amended. With a zero clamp time \<^verbatim>\<open>cmd.Env\<close> stays nil and the process inherits the
  environment untouched. With any other clamp time the environment is the inherited one
  followed by exactly \<^verbatim>\<open>PYTHONHASHSEED=0\<close> and \<^verbatim>\<open>SOURCE_DATE_EPOCH=\<close> with the clamp time in
  whole Unix seconds, in decimal.
\<close>

theorem process_environment:
  assumes "EvRun c fs \<in> set (invocation_calls exe cmdline w clampTime input s)"
  shows "Env c = (if IsZero clampTime then None
                  else Some (Environ w @
                         [''PYTHONHASHSEED=0'',
                          ''SOURCE_DATE_EPOCH='' @ Sprintf_d (Unix clampTime)]))"
  using invocation_Run [OF assms] by auto

theorem process_environment_witness:
  "EvRun ex_cmd ex_files \<in> set (invocation_calls ex_exe ex_cmdline ex_world ex_clamp ex_input ex_state) \<and>
   Env ex_cmd = Some [''HOME=/root'', ''PYTHONHASHSEED=0'', ''SOURCE_DATE_EPOCH=1'']"
proof -
  have h: "EvRun ex_cmd ex_files \<in> set (invocation_calls ex_exe ex_cmdline ex_world ex_clamp ex_input ex_state)"
    by (simp add: ex_invocation_calls)
  from process_environment [OF h] h show ?thesis
    by (simp add: ex_cmd_def)
qed

text \<open>
  C9, as stated: whenever the external process is started, the access time and the
  modification time of the copied file are the modification time of the source. They are
  not when that time is the zero \<^verbatim>\<open>time.Time\<close>: \<^verbatim>\<open>os.Chtimes\<close> then leaves the file the
  times that \<^verbatim>\<open>os.WriteFile\<close> gave it, those of the clock.
\<close>

theorem zero_ModTime_counterexample:
  "EvRun ex_cmd ex_files_zero \<in>
     set (invocation_calls ex_exe ex_cmdline ex_world ex_clamp ex_input_zero ex_state) \<and>
   map_option st_atime
     (ex_files_zero (filepath_Join ex_world [Dir ex_cmd, path_Base (FullName ex_input_zero)])) \<noteq>
     Some (ModTime ex_input_zero) \<and>
   map_option st_mtime
     (ex_files_zero (filepath_Join ex_world [Dir ex_cmd, path_Base (FullName ex_input_zero)])) \<noteq>
     Some (ModTime ex_input_zero)"
proof -
  have c: "command ex_exe ex_cmdline ex_world ex_clamp ex_input_zero ''/tmp/ocibuild-pycompile.1'' = ex_cmd"
    by (simp add: command_def ex_cmd_def ex_cmdline_def ex_Sprintf,
        simp add: ex_input_zero_def ex_input_def ex_paths ex_world_def IsZero_def ex_clamp_def)
  have f: "staged ex_world ex_input_zero ''/tmp/ocibuild-pycompile.1'' ''print()'' (files ex_state) =
           ex_files_zero"
    by (simp add: staged_def ex_files_zero_def ex_input_zero_def ex_input_def ex_paths ex_state_def
        ex_world_def Chtimes_set_def IsZero_def)
  have "EvRun (command ex_exe ex_cmdline ex_world ex_clamp ex_input_zero ''/tmp/ocibuild-pycompile.1'')
          (staged ex_world ex_input_zero ''/tmp/ocibuild-pycompile.1'' ''print()'' (files ex_state))
        \<in> set (invocation_calls ex_exe ex_cmdline ex_world ex_clamp ex_input_zero ex_state)"
    by (rule invocation_reaches_Run [where inReader = "\<lparr>ReadAll = Inr ''print()'', Close = None\<rparr>"])
       (simp_all add: ex_world_def ex_input_zero_def ex_input_def)
  then have "EvRun ex_cmd ex_files_zero \<in>
     set (invocation_calls ex_exe ex_cmdline ex_world ex_clamp ex_input_zero ex_state)"
    by (simp only: c f)
  moreover have "filepath_Join ex_world [Dir ex_cmd, path_Base (FullName ex_input_zero)] =
      ''/tmp/ocibuild-pycompile.1/mod.py''"
    by (simp add: ex_world_def ex_cmd_def ex_input_zero_def ex_input_def ex_paths)
  ultimately show ?thesis
    by (simp add: ex_files_zero_def ex_input_zero_def)
qed

text \<open>
  C9, amended. When the external process is started, the content read from the source has
  been written to the file named by the workspace joined with the base name of the
  source's full name (\<^verbatim>\<open>path.Base(in.FullName())\<close>, not the full name; it is \<^verbatim>\<open>in.Name()\<close>
  when the two agree), and nothing else has been written by the invocation. When the
  modification time of the source is not the zero time and its Unix nanoseconds fit
  \<^verbatim>\<open>int64\<close> (the years 1678 to 2262), the access time and the modification time of that
  file are the modification time of the source. When it is the zero time, the file keeps
  the times of the write.
\<close>

theorem source_staged_before_run:
  assumes "EvRun c fs \<in> set (invocation_calls exe cmdline w clampTime input s)"
  shows "\<exists>inReader inBytes.
           Open input = Inr inReader \<and> ReadAll inReader = Inr inBytes \<and>
           MkdirTemp w [] ''ocibuild-pycompile.'' = Inr (Dir c) \<and>
           fs = (files s)(filepath_Join w [Dir c, path_Base (FullName input)] \<mapsto>
                  \<lparr>st_content = inBytes, st_atime = Chtimes_set (ModTime input) (Now w),
                   st_mtime = Chtimes_set (ModTime input) (Now w)\<rparr>) \<and>
           (\<not> IsZero (ModTime input) \<and> in_UnixNano_range (ModTime input) \<longrightarrow>
              fs (filepath_Join w [Dir c, path_Base (FullName input)]) =
                Some \<lparr>st_content = inBytes, st_atime = ModTime input,
                      st_mtime = ModTime input\<rparr>) \<and>
           (IsZero (ModTime input) \<longrightarrow>
              fs (filepath_Join w [Dir c, path_Base (FullName input)]) =
                Some \<lparr>st_content = inBytes, st_atime = Now w, st_mtime = Now w\<rparr>) \<and>
           (Name input = path_Base (FullName input) \<longrightarrow>
              map_option st_content (fs (filepath_Join w [Dir c, Name input])) = Some inBytes)"
proof -
  from invocation_Run [OF assms] obtain inReader inBytes where
    a: "Open input = Inr inReader" "ReadAll inReader = Inr inBytes"
       "MkdirTemp w [] ''ocibuild-pycompile.'' = Inr (Dir c)"
    and f: "fs = (files s)(filepath_Join w [Dir c, path_Base (FullName input)] \<mapsto>
                  \<lparr>st_content = inBytes, st_atime = Chtimes_set (ModTime input) (Now w),
                   st_mtime = Chtimes_set (ModTime input) (Now w)\<rparr>)"
    by auto
  have z: "IsZero (ModTime input) \<Longrightarrow> Chtimes_set (ModTime input) (Now w) = Now w"
    by (simp add: Chtimes_set_def)
  from f have
    "\<not> IsZero (ModTime input) \<and> in_UnixNano_range (ModTime input) \<longrightarrow>
       fs (filepath_Join w [Dir c, path_Base (FullName input)]) =
         Some \<lparr>st_content = inBytes, st_atime = ModTime input, st_mtime = ModTime input\<rparr>"
    "IsZero (ModTime input) \<longrightarrow>
       fs (filepath_Join w [Dir c, path_Base (FullName input)]) =
         Some \<lparr>st_content = inBytes, st_atime = Now w, st_mtime = Now w\<rparr>"
    "Name input = path_Base (FullName input) \<longrightarrow>
       map_option st_content (fs (filepath_Join w [Dir c, Name input])) = Some inBytes"
    by (simp_all add: Chtimes_set_exact z)
  with a f show ?thesis by blast
qed

theorem source_staged_before_run_witness:
  "EvRun ex_cmd ex_files \<in> set (invocation_calls ex_exe ex_cmdline ex_world ex_clamp ex_input ex_state) \<and>
   \<not> IsZero (ModTime ex_input) \<and> in_UnixNano_range (ModTime ex_input) \<and>
   Name ex_input = path_Base (FullName ex_input) \<and>
   ex_files (filepath_Join ex_world [Dir ex_cmd, ''mod.py'']) =
     Some \<lparr>st_content = ''print()'', st_atime = ModTime ex_input, st_mtime = ModTime ex_input\<rparr>"
proof -
  have h: "EvRun ex_cmd ex_files \<in> set (invocation_calls ex_exe ex_cmdline ex_world ex_clamp ex_input ex_state)"
    by (simp add: ex_invocation_calls)
  have r: "\<not> IsZero (ModTime ex_input) \<and> in_UnixNano_range (ModTime ex_input)"
    by (simp add: ex_input_def ex_mtime_def IsZero_def in_UnixNano_range_def Unix_def unixToInternal_def)
  have b: "path_Base (FullName ex_input) = ''mod.py''"
    by (simp add: ex_input_def ex_paths)
  have n: "Name ex_input = path_Base (FullName ex_input)"
    by (simp add: ex_input_def ex_paths)
  from source_staged_before_run [OF h] obtain inReader inBytes where
    a: "Open ex_input = Inr inReader" "ReadAll inReader = Inr inBytes" and
    f: "\<not> IsZero (ModTime ex_input) \<and> in_UnixNano_range (ModTime ex_input) \<longrightarrow>
          ex_files (filepath_Join ex_world [Dir ex_cmd, path_Base (FullName ex_input)]) =
            Some \<lparr>st_content = inBytes, st_atime = ModTime ex_input, st_mtime = ModTime ex_input\<rparr>"
    by blast
  from a have inb: "inBytes = ''print()''"
    by (auto simp: ex_input_def)
  from f r have "ex_files (filepath_Join ex_world [Dir ex_cmd, ''mod.py'']) =
     Some \<lparr>st_content = ''print()'', st_atime = ModTime ex_input, st_mtime = ModTime ex_input\<rparr>"
    unfolding b inb by blast
  with h r n show ?thesis by blast
qed

text \<open>
  C5. The collector, in the words of the specification, is \<open>collect_workspace\<close>: it does not
  enter the root of the workspace in the result, it enters every directory below it, it
  enters a file exactly when the name of the file ends in \<^verbatim>\<open>.pyc\<close>, and it passes over every
  other file without looking at it, so without an error. On every workspace whose entries
  have the names a directory listing can return, \<^verbatim>\<open>fs.WalkDir\<close> with the callback of the
  program computes the same result: the same error, or the same map, whose keys are the
  virtual names of the directories and of the files named \<^verbatim>\<open>*.pyc\<close>.
\<close>

theorem collector_selects_by_name:
  assumes "wf_workspace fsys"
  shows "case collect_workspace input fsys of
           Inl e \<Rightarrow> fst (WalkDir fsys ''.'' (walkFn input) Map.empty) = Return (Some e)
         | Inr vfs \<Rightarrow>
             WalkDir fsys ''.'' (walkFn input) Map.empty = (Return None, vfs) \<and>
             dom vfs = virtual_name input ` set (selected_workspace fsys)"
  using WalkDir_refines [OF assms, of input] collect_workspace_keys(1) [of input fsys]
  by (auto split: sum.splits)

theorem collector_selects_by_name_witness:
  "wf_workspace (Inr ex_tree) \<and>
   WalkDir (Inr ex_tree) ''.'' (walkFn ex_input) Map.empty = (Return None, ex_vfs) \<and>
   dom ex_vfs = virtual_name ex_input ` {[''__pycache__''], [''__pycache__'', ''mod.pyc'']}"
  using collector_selects_by_name [OF ex_wf(1), of ex_input] ex_wf(1)
  by (simp add: ex_collect ex_selected)

text \<open>
  C6. When the closure returns a map, its keys are exactly the results of \<^verbatim>\<open>path.Join\<close> on
  the directory part of the source's full name and the relative slash path of an entry
  that the collector includes, and each value carries its key as its full name. When the
  directory part is a relative path \<open>dirs\<close>, the key of the entry at \<open>ns\<close> is the slash path
  \<open>dirs @ ns\<close>: a source named \<^verbatim>\<open>pkg/mod.py\<close> gives keys below \<^verbatim>\<open>pkg/\<close>. Nothing here
  mentions the path functions of the host, which the world is free to choose.
\<close>

theorem result_keys_are_virtual_names:
  assumes "EvRun c fs \<in> set (invocation_calls exe cmdline w clampTime input s)"
    and "wf_workspace (snd (Run w c fs))"
    and "fst (closure exe cmdline w clampTime input s) = Return (Some vfs, err)"
  shows "dom vfs = (\<lambda>ns. path_Join [path_Dir (FullName input), join_slash ns]) `
                     set (selected_workspace (snd (Run w c fs))) \<and>
         (\<forall>k ref. vfs k = Some ref \<longrightarrow> MFullName ref = k) \<and>
         (\<forall>dirs. dirs \<noteq> [] \<and> (\<forall>n \<in> set dirs. valid_name n) \<and>
                 path_Dir (FullName input) = join_slash dirs \<longrightarrow>
            dom vfs = (\<lambda>ns. join_slash (dirs @ ns)) ` set (selected_workspace (snd (Run w c fs))))"
proof -
  obtain rerr dirFS where r: "Run w c fs = (rerr, dirFS)"
    by (cases "Run w c fs")
  from closure_after_Run [OF assms(1)] assms(3) r have rerr: "rerr = None"
    by (auto split: option.splits)
  from assms(2) r have wf: "wf_workspace dirFS" by simp
  from closure_collects [OF assms(1) r [unfolded rerr] wf] assms(3)
  have col: "collect_workspace input dirFS = Inr vfs"
    by (auto split: sum.splits)
  from collect_workspace_keys [OF col]
  have d: "dom vfs = virtual_name input ` set (selected_workspace dirFS)" and k: "keyed vfs"
    by auto
  have "dom vfs = (\<lambda>ns. join_slash (dirs @ ns)) ` set (selected_workspace dirFS)"
    if "dirs \<noteq> []" "\<forall>n \<in> set dirs. valid_name n" "path_Dir (FullName input) = join_slash dirs"
    for dirs
  proof -
    have "virtual_name input p = join_slash (dirs @ p)" if "p \<in> set (selected_workspace dirFS)" for p
      using selected_workspace_valid [OF wf that] \<open>dirs \<noteq> []\<close> \<open>\<forall>n \<in> set dirs. valid_name n\<close>
      by (simp add: virtual_name_def \<open>path_Dir (FullName input) = join_slash dirs\<close> path_Join_join_slash)
    with d show ?thesis by auto
  qed
  then have 3: "\<forall>dirs. dirs \<noteq> [] \<and> (\<forall>n \<in> set dirs. valid_name n) \<and>
                 path_Dir (FullName input) = join_slash dirs \<longrightarrow>
            dom vfs = (\<lambda>ns. join_slash (dirs @ ns)) ` set (selected_workspace dirFS)"
    by blast
  have 1: "dom vfs = (\<lambda>ns. path_Join [path_Dir (FullName input), join_slash ns]) `
                     set (selected_workspace dirFS)"
    unfolding d by (rule image_cong) (simp_all add: virtual_name_def)
  from k have 2: "\<forall>k ref. vfs k = Some ref \<longrightarrow> MFullName ref = k"
    by (simp add: keyed_def)
  have "snd (Run w c fs) = dirFS" by (simp add: r)
  with 1 2 3 show ?thesis by (simp only: simp_thms)
qed

theorem result_keys_are_virtual_names_witness:
  "EvRun ex_cmd ex_files \<in> set (invocation_calls ex_exe ex_cmdline ex_world ex_clamp ex_input ex_state) \<and>
   wf_workspace (snd (Run ex_world ex_cmd ex_files)) \<and>
   fst (closure ex_exe ex_cmdline ex_world ex_clamp ex_input ex_state) = Return (Some ex_vfs, None) \<and>
   FullName ex_input = ''pkg/mod.py'' \<and> path_Dir (FullName ex_input) = join_slash [''pkg''] \<and>
   dom ex_vfs = {''pkg/__pycache__'', ''pkg/__pycache__/mod.pyc''}"
proof -
  have h1: "EvRun ex_cmd ex_files \<in> set (invocation_calls ex_exe ex_cmdline ex_world ex_clamp ex_input ex_state)"
    by (simp add: ex_invocation_calls)
  have run: "Run ex_world ex_cmd ex_files = (None, Inr ex_tree)"
    by (simp add: ex_world_def)
  have h2: "wf_workspace (snd (Run ex_world ex_cmd ex_files))"
    by (simp add: run ex_wf)
  have sel: "selected_workspace (snd (Run ex_world ex_cmd ex_files)) =
             [[''__pycache__''], [''__pycache__'', ''mod.pyc'']]"
    by (simp add: run ex_selected)
  have dir: "path_Dir (FullName ex_input) = join_slash [''pkg'']"
    by (simp add: ex_input_def ex_paths)
  have v: "valid_name ''pkg''" by (simp add: valid_name_def)
  have pre: "[''pkg''] \<noteq> [] \<and> (\<forall>n \<in> set [''pkg'']. valid_name n) \<and>
             path_Dir (FullName ex_input) = join_slash [''pkg'']"
    using dir v by simp
  from result_keys_are_virtual_names [OF h1 h2 ex_closure(1)]
  have "\<forall>dirs. dirs \<noteq> [] \<and> (\<forall>n \<in> set dirs. valid_name n) \<and>
                 path_Dir (FullName ex_input) = join_slash dirs \<longrightarrow>
            dom ex_vfs = (\<lambda>ns. join_slash (dirs @ ns)) `
              set (selected_workspace (snd (Run ex_world ex_cmd ex_files)))"
    by (elim conjE)
  with pre have "dom ex_vfs = (\<lambda>ns. join_slash ([''pkg''] @ ns)) `
          set (selected_workspace (snd (Run ex_world ex_cmd ex_files)))"
    by blast
  then have "dom ex_vfs = {''pkg/__pycache__'', ''pkg/__pycache__/mod.pyc''}"
    unfolding sel by simp
  with h1 h2 ex_closure(1) dir show ?thesis
    by (simp add: ex_input_def)
qed

text \<open>
  C7. After a run of the external process that succeeded, the closure returns what the
  collector of the specification returns: on the first error of \<^verbatim>\<open>Stat\<close>, \<^verbatim>\<open>ReadDir\<close>,
  \<^verbatim>\<open>Info\<close>, \<^verbatim>\<open>Open\<close> or \<^verbatim>\<open>ReadAll\<close> met in walking order, a nil map and that error; otherwise
  the complete map (with the error of the removal, if any). An invocation that does not
  get to the collection returns a nil map and an error. So the map returned is complete
  or nil, never the part collected before an error.
\<close>

theorem collection_is_all_or_nothing:
  "(\<forall>c fs dirFS.
      EvRun c fs \<in> set (invocation_calls exe cmdline w clampTime input s) \<and>
      Run w c fs = (None, dirFS) \<and> wf_workspace dirFS \<longrightarrow>
      fst (closure exe cmdline w clampTime input s) =
        (case collect_workspace input dirFS of
           Inl e \<Rightarrow> Return (None, Some e)
         | Inr vfs \<Rightarrow> Return (Some vfs, RemoveAll w (Dir c)))) \<and>
   ((\<forall>c fs. EvRun c fs \<in> set (invocation_calls exe cmdline w clampTime input s) \<longrightarrow>
        fst (Run w c fs) \<noteq> None) \<longrightarrow>
    (\<exists>e. fst (closure exe cmdline w clampTime input s) = Return (None, Some e)))"
proof (intro conjI allI impI)
  fix c fs dirFS
  assume a: "EvRun c fs \<in> set (invocation_calls exe cmdline w clampTime input s) \<and>
      Run w c fs = (None, dirFS) \<and> wf_workspace dirFS"
  then have 1: "EvRun c fs \<in> set (invocation_calls exe cmdline w clampTime input s)"
    and 2: "Run w c fs = (None, dirFS)" and 3: "wf_workspace dirFS"
    by simp_all
  show "fst (closure exe cmdline w clampTime input s) =
        (case collect_workspace input dirFS of
           Inl e \<Rightarrow> Return (None, Some e)
         | Inr vfs \<Rightarrow> Return (Some vfs, RemoveAll w (Dir c)))"
    by (rule closure_collects [OF 1 2 3])
next
  assume a: "\<forall>c fs. EvRun c fs \<in> set (invocation_calls exe cmdline w clampTime input s) \<longrightarrow>
        fst (Run w c fs) \<noteq> None"
  show "\<exists>e. fst (closure exe cmdline w clampTime input s) = Return (None, Some e)"
  proof (cases "\<exists>c fs. EvRun c fs \<in> set (invocation_calls exe cmdline w clampTime input s)")
    case True
    then obtain c fs where m: "EvRun c fs \<in> set (invocation_calls exe cmdline w clampTime input s)"
      by blast
    from a m have "fst (Run w c fs) \<noteq> None" by blast
    then obtain e dirFS where "Run w c fs = (Some e, dirFS)"
      by (cases "Run w c fs") auto
    with closure_after_Run [OF m] show ?thesis by simp
  next
    case False
    then have "\<forall>c fs. EvRun c fs \<notin> set (invocation_calls exe cmdline w clampTime input s)"
      by blast
    from closure_no_Run [OF this] show ?thesis .
  qed
qed

theorem collection_is_all_or_nothing_witness:
  "EvRun ex_cmd ex_files \<in> set (invocation_calls ex_exe ex_cmdline ex_world_unreadable ex_clamp ex_input ex_state) \<and>
   Run ex_world_unreadable ex_cmd ex_files = (None, Inr ex_tree_unreadable) \<and>
   wf_workspace (Inr ex_tree_unreadable) \<and>
   fst (closure ex_exe ex_cmdline ex_world_unreadable ex_clamp ex_input ex_state) =
     Return (None, Some (Error ''read: input/output error''))"
proof -
  have h1: "EvRun ex_cmd ex_files \<in> set (invocation_calls ex_exe ex_cmdline ex_world_unreadable ex_clamp ex_input ex_state)"
    by (rule ex_reaches_Run) (simp_all add: ex_world_unreadable_def ex_world_def)
  have h2: "Run ex_world_unreadable ex_cmd ex_files = (None, Inr ex_tree_unreadable)"
    by (simp add: ex_world_unreadable_def)
  from collection_is_all_or_nothing [of ex_exe ex_cmdline ex_world_unreadable ex_clamp ex_input ex_state,
      THEN conjunct1, rule_format, of ex_cmd ex_files "Inr ex_tree_unreadable"]
    h1 h2 ex_wf(2)
  have "fst (closure ex_exe ex_cmdline ex_world_unreadable ex_clamp ex_input ex_state) =
        (case collect_workspace ex_input (Inr ex_tree_unreadable) of
           Inl e \<Rightarrow> Return (None, Some e)
         | Inr vfs \<Rightarrow> Return (Some vfs, RemoveAll ex_world_unreadable (Dir ex_cmd)))"
    by blast
  with h1 h2 ex_wf(2) show ?thesis
    by (simp add: ex_collect_unreadable)
qed




end
